theory Spec2Isabelle
  imports Complex_Main "HOL-Library.Word"
begin

section \<open>JavaScript values\<close>

text \<open>
  A JavaScript string is a sequence of UTF-16 code units. The literals of the source
  are ASCII, so \<open>lit\<close> embeds an Isabelle string literal code unit by code unit.
\<close>

type_synonym jschar = "16 word"
type_synonym jsstring = "jschar list"

definition lit :: "string \<Rightarrow> jsstring" where
  "lit = map of_char"

text \<open>
  A JavaScript number is a double. The model keeps the finite values as rationals
  and adds the two infinities and NaN; the zeros are not told apart (both are falsy).
\<close>

datatype jsnum = NaN | Infinity bool | Num rat

text \<open>
  The values a caller can pass at run time, whatever the TypeScript signature says.
  An array is the list of its positions, each an element or a hole (\<open>None\<close>): the
  literal \<open>['ok', , 'ok']\<close> and \<open>new Array(3)\<close> have holes. An object is its list of own
  properties.
\<close>

datatype jsval =
    JUndefined
  | JNull
  | JBool bool
  | JNum jsnum
  | JStr jsstring
  | JArr "jsval option list"
  | JObj "(jsstring \<times> jsval) list"

text \<open>\<open>!v\<close> is \<open>\<not> ToBoolean v\<close>.\<close>

fun ToBoolean :: "jsval \<Rightarrow> bool" where
  "ToBoolean JUndefined = False"
| "ToBoolean JNull = False"
| "ToBoolean (JBool b) = b"
| "ToBoolean (JNum n) = (n \<noteq> NaN \<and> n \<noteq> Num 0)"
| "ToBoolean (JStr s) = (s \<noteq> [])"
| "ToBoolean (JArr xs) = True"
| "ToBoolean (JObj ps) = True"

fun typeof :: "jsval \<Rightarrow> string" where
  "typeof JUndefined = ''undefined''"
| "typeof JNull = ''object''"
| "typeof (JBool b) = ''boolean''"
| "typeof (JNum n) = ''number''"
| "typeof (JStr s) = ''string''"
| "typeof (JArr xs) = ''object''"
| "typeof (JObj ps) = ''object''"

fun isArray :: "jsval \<Rightarrow> bool" where
  "isArray (JArr xs) = True"
| "isArray v = False"

text \<open>
  The string held by a value whose \<open>typeof\<close> is \<open>string\<close>, and the positions of a
  value that \<open>isArray\<close> accepts. Both are only applied behind those checks.
\<close>

fun string_of :: "jsval \<Rightarrow> jsstring" where
  "string_of (JStr s) = s"
| "string_of v = []"

fun elements :: "jsval \<Rightarrow> jsval option list" where
  "elements (JArr xs) = xs"
| "elements v = []"

subsection \<open>Strings: \<open>trim\<close>, \<open>split(/\s+/)\<close>, template literals\<close>

text \<open>
  The code units that \<open>String.prototype.trim\<close> removes and that \<open>\s\<close> matches:
  WhiteSpace and LineTerminator of ECMAScript (TAB, LF, VT, FF, CR, SP, NBSP,
  U+1680, U+2000 to U+200A, U+2028, U+2029, U+202F, U+205F, U+3000, U+FEFF).
\<close>

definition is_ws :: "jschar \<Rightarrow> bool" where
  "is_ws c = (c = 0x0009 \<or> c = 0x000A \<or> c = 0x000B \<or> c = 0x000C \<or> c = 0x000D \<or>
     c = 0x0020 \<or> c = 0x00A0 \<or> c = 0x1680 \<or> (0x2000 \<le> c \<and> c \<le> 0x200A) \<or>
     c = 0x2028 \<or> c = 0x2029 \<or> c = 0x202F \<or> c = 0x205F \<or> c = 0x3000 \<or> c = 0xFEFF)"

definition trim :: "jsstring \<Rightarrow> jsstring" where
  "trim s = rev (dropWhile is_ws (rev (dropWhile is_ws s)))"

text \<open>
  \<open>s.split(/\s+/)\<close>: the pieces of \<open>s\<close> between the maximal runs of white space. A run
  at the start or at the end leaves an empty piece there, and the empty string splits
  into one empty piece. \<open>cur\<close> is the piece being read.
\<close>

function split_ws_from :: "jsstring \<Rightarrow> jsstring \<Rightarrow> jsstring list" where
  "split_ws_from cur [] = [cur]"
| "split_ws_from cur (c # cs) =
     (if is_ws c then cur # split_ws_from [] (dropWhile is_ws cs)
      else split_ws_from (cur @ [c]) cs)"
  by pat_completeness auto
termination
  by (relation "measure (\<lambda>(cur, s). length s)")
     (auto simp: length_dropWhile_le less_Suc_eq_le)

definition split_ws :: "jsstring \<Rightarrow> jsstring list" where
  "split_ws s = split_ws_from [] s"

text \<open>
  \<open>${n}\<close> in a template literal, for the integers the source formats (a word count,
  an array length, an index, a status code, a timeout): the decimal digits.
\<close>

definition digit_char :: "nat \<Rightarrow> jschar" where
  "digit_char d = of_nat (48 + d)"

function show_nat :: "nat \<Rightarrow> jsstring" where
  "show_nat n = (if n < 10 then [digit_char n] else show_nat (n div 10) @ [digit_char (n mod 10)])"
  by pat_completeness auto
termination
  by (relation "measure id") auto

declare show_nat.simps [simp del]

definition show_int :: "int \<Rightarrow> jsstring" where
  "show_int i = (if i < 0 then lit ''-'' @ show_nat (nat (- i)) else show_nat (nat i))"

text \<open>
  \<open>parseInt(s, 10)\<close>: leading white space is skipped, one sign is read, then the longest
  run of decimal digits; no digit at all gives NaN. The value is the exact integer
  (a double holds it exactly below \<open>2^53\<close>).
\<close>

definition is_digit :: "jschar \<Rightarrow> bool" where
  "is_digit c = (0x0030 \<le> c \<and> c \<le> 0x0039)"

definition digits_value :: "jsstring \<Rightarrow> nat" where
  "digits_value ds = foldl (\<lambda>acc c. 10 * acc + (unat c - 48)) 0 ds"

definition parseInt10 :: "jsstring \<Rightarrow> jsnum" where
  "parseInt10 s =
     (let S = dropWhile is_ws s;
          negative = (S \<noteq> [] \<and> hd S = 0x002D);
          S' = (if S \<noteq> [] \<and> (hd S = 0x002B \<or> hd S = 0x002D) then tl S else S);
          Z = takeWhile is_digit S'
      in if Z = [] then NaN
         else Num (of_int (if negative then - int (digits_value Z) else int (digits_value Z))))"

subsection \<open>Thrown values and the conversion to a string\<close>

text \<open>
  What a \<open>catch\<close> can receive that is not of the library's own classes: an \<open>Error\<close>
  object, with its \<open>name\<close>, its \<open>message\<close> and whether it is a \<open>TypeError\<close>, or any
  other thrown value.
\<close>

datatype foreign =
    JsError jsstring jsstring bool
  | NonError jsval

text \<open>
  \<open>ToString\<close>, which the constructor of \<open>Error\<close> applies to its message. The digits of
  a number are the platform's (\<open>N\<close>). An array is its elements joined by commas, with
  the empty string for a hole, for \<open>undefined\<close> and for \<open>null\<close>. An object is
  \<open>[object Object]\<close>, unless it has an own property \<open>toString\<close>: the values of the
  model hold no function, so that property is not callable, \<open>valueOf\<close> returns the
  object itself, and the conversion throws a \<open>TypeError\<close>.
\<close>

definition cannot_convert :: foreign where
  "cannot_convert =
     JsError (lit ''TypeError'') (lit ''Cannot convert object to primitive value'') True"

fun ToString :: "(jsnum \<Rightarrow> jsstring) \<Rightarrow> jsval \<Rightarrow> foreign + jsstring"
  and join :: "(jsnum \<Rightarrow> jsstring) \<Rightarrow> jsval option list \<Rightarrow> foreign + jsstring"
  and join_element :: "(jsnum \<Rightarrow> jsstring) \<Rightarrow> jsval option \<Rightarrow> foreign + jsstring" where
  "ToString N JUndefined = Inr (lit ''undefined'')"
| "ToString N JNull = Inr (lit ''null'')"
| "ToString N (JBool b) = Inr (if b then lit ''true'' else lit ''false'')"
| "ToString N (JNum n) = Inr (N n)"
| "ToString N (JStr s) = Inr s"
| "ToString N (JArr xs) = join N xs"
| "ToString N (JObj ps) =
     (if map_of ps (lit ''toString'') \<noteq> None then Inl cannot_convert
      else Inr (lit ''[object Object]''))"
| "join N [] = Inr []"
| "join N [x] = join_element N x"
| "join N (x # y # ys) =
     (case join_element N x of
        Inl err \<Rightarrow> Inl err
      | Inr s \<Rightarrow>
          (case join N (y # ys) of Inl err \<Rightarrow> Inl err | Inr t \<Rightarrow> Inr (s @ lit '','' @ t)))"
| "join_element N None = Inr []"
| "join_element N (Some JUndefined) = Inr []"
| "join_element N (Some JNull) = Inr []"
| "join_element N (Some v) = ToString N v"

text \<open>
  Reading the property \<open>name\<close> of a value, for a name that no prototype defines
  (\<open>detail\<close>, \<open>message\<close>, \<open>error\<close>): the own property of an object, and \<open>undefined\<close> when
  the object has none and on every other value. On \<open>null\<close> and \<open>undefined\<close> the read
  throws a \<open>TypeError\<close>.
\<close>

fun throws_on_read :: "jsval \<Rightarrow> bool" where
  "throws_on_read JUndefined = True"
| "throws_on_read JNull = True"
| "throws_on_read v = False"

fun read_field :: "jsval \<Rightarrow> jsstring \<Rightarrow> jsval" where
  "read_field (JObj ps) name = (case map_of ps name of None \<Rightarrow> JUndefined | Some v \<Rightarrow> v)"
| "read_field v name = JUndefined"

text \<open>\<open>a || b\<close>.\<close>

definition js_or :: "jsval \<Rightarrow> jsval \<Rightarrow> jsval" where
  "js_or a b = (if ToBoolean a then a else b)"

section \<open>types.ts\<close>

record EmotionScore =
  emotion :: jsstring
  score :: jsnum

text \<open>
  The wire shapes. \<open>confidence\<close>, \<open>results\<close> and \<open>count\<close> are also fields of the
  normalised results below, so the wire fields carry the prefix \<open>api_\<close>.
\<close>

record ApiAnalyzeResponse =
  primary_emotion :: jsstring
  api_confidence :: jsnum
  all_emotions :: "EmotionScore list"

record ApiBatchResponse =
  api_results :: "ApiAnalyzeResponse list"
  api_count :: int

record EmotionResult =
  primaryEmotion :: jsstring
  confidence :: jsnum
  allEmotions :: "EmotionScore list"

record BatchEmotionResult =
  results :: "EmotionResult list"
  count :: int

text \<open>An optional field is \<open>None\<close> when it is absent (\<open>undefined\<close>).\<close>

record EmotionAnalyzerOptions =
  opt_baseUrl :: "jsstring option"
  opt_timeout :: "int option"

text \<open>
  The shape that the request casts the parsed body of an error response to. The cast
  is not checked: the request reads the three fields from whatever \<open>JSON.parse\<close> gave.
\<close>

record ApiErrorResponse =
  detail :: "jsstring option"
  message :: "jsstring option"
  error :: "jsstring option"

section \<open>errors.ts\<close>

text \<open>
  The subclasses of \<open>EmotionAnalyzerError\<close>, each with its message first and then its
  own fields: \<open>field\<close>; \<open>retryAfter\<close>; \<open>statusCode\<close> and \<open>responseBody\<close>; \<open>timeout\<close>;
  \<open>cause\<close>.
\<close>

datatype EmotionAnalyzerError =
    ValidationError jsstring "jsstring option"
  | RateLimitError jsstring "jsnum option"
  | ApiError jsstring nat jsstring
  | TimeoutError jsstring int
  | NetworkError jsstring "foreign option"

text \<open>The constructor of \<open>TimeoutError\<close> builds the message from the duration.\<close>

definition new_TimeoutError :: "int \<Rightarrow> EmotionAnalyzerError" where
  "new_TimeoutError t = TimeoutError (lit ''Request timed out after '' @ show_int t @ lit ''ms'') t"

text \<open>What the \<open>try\<close> block of \<open>request\<close> can throw into its \<open>catch\<close>.\<close>

datatype thrown = Own EmotionAnalyzerError | Foreign foreign

text \<open>
  \<open>throw new ApiError(message, statusCode, responseBody)\<close> with any value as message:
  \<open>super(message)\<close> converts it to a string, which can throw; for \<open>undefined\<close> the
  message is the empty one of \<open>Error.prototype\<close>.
\<close>

definition throw_new_ApiError ::
    "(jsnum \<Rightarrow> jsstring) \<Rightarrow> jsval \<Rightarrow> nat \<Rightarrow> jsstring \<Rightarrow> thrown" where
  "throw_new_ApiError N msg code responseBody =
     (if msg = JUndefined then Own (ApiError [] code responseBody)
      else (case ToString N msg of
              Inl err \<Rightarrow> Foreign err
            | Inr m \<Rightarrow> Own (ApiError m code responseBody)))"

fun error_message :: "EmotionAnalyzerError \<Rightarrow> jsstring" where
  "error_message (ValidationError m f) = m"
| "error_message (RateLimitError m r) = m"
| "error_message (ApiError m s b) = m"
| "error_message (TimeoutError m t) = m"
| "error_message (NetworkError m c) = m"

fun error_field :: "EmotionAnalyzerError \<Rightarrow> jsstring option" where
  "error_field (ValidationError m f) = f"
| "error_field e = None"

text \<open>\<open>statusCode\<close> is the constant 429 in \<open>RateLimitError\<close>.\<close>

fun statusCode :: "EmotionAnalyzerError \<Rightarrow> nat option" where
  "statusCode (RateLimitError m r) = Some 429"
| "statusCode (ApiError m s b) = Some s"
| "statusCode e = None"

section \<open>client.ts\<close>

definition DEFAULT_BASE_URL :: jsstring where
  "DEFAULT_BASE_URL = lit ''https://itsKrish01-emotion-checker.hf.space''"

definition DEFAULT_TIMEOUT :: int where
  "DEFAULT_TIMEOUT = 30000"

definition MAX_WORDS_PER_TEXT :: nat where
  "MAX_WORDS_PER_TEXT = 100"

definition MAX_BATCH_SIZE :: nat where
  "MAX_BATCH_SIZE = 10"

definition countWords :: "jsstring \<Rightarrow> nat" where
  "countWords text = length (filter (\<lambda>word. length word > 0) (split_ws (trim text)))"

definition transformResponse :: "ApiAnalyzeResponse \<Rightarrow> EmotionResult" where
  "transformResponse response =
     \<lparr>primaryEmotion = primary_emotion response,
      confidence = api_confidence response,
      allEmotions = all_emotions response\<rparr>"

subsection \<open>The constructor\<close>

record EmotionAnalyzer =
  baseUrl :: jsstring
  timeout :: int

text \<open>
  \<open>s.replace(/\/$/, '')\<close>: without the \<open>m\<close> flag \<open>$\<close> matches at the end of the string
  only, so the one possible match is a slash in the last position.
\<close>

definition replace_trailing_slash :: "jsstring \<Rightarrow> jsstring" where
  "replace_trailing_slash s = (if s \<noteq> [] \<and> last s = 0x002F then butlast s else s)"

text \<open>\<open>a || b\<close> on an optional string and a string; \<open>a ?? b\<close> on an optional number.\<close>

definition or_default :: "jsstring option \<Rightarrow> jsstring \<Rightarrow> jsstring" where
  "or_default a b = (case a of None \<Rightarrow> b | Some s \<Rightarrow> if s \<noteq> [] then s else b)"

definition nullish_default :: "int option \<Rightarrow> int \<Rightarrow> int" where
  "nullish_default a b = (case a of None \<Rightarrow> b | Some t \<Rightarrow> t)"

definition new_EmotionAnalyzer :: "EmotionAnalyzerOptions \<Rightarrow> EmotionAnalyzer" where
  "new_EmotionAnalyzer options =
     \<lparr>baseUrl = replace_trailing_slash (or_default (opt_baseUrl options) DEFAULT_BASE_URL),
      timeout = nullish_default (opt_timeout options) DEFAULT_TIMEOUT\<rparr>"

subsection \<open>Validation\<close>

definition validateText :: "jsval \<Rightarrow> EmotionAnalyzerError + unit" where
  "validateText text =
     (if \<not> ToBoolean text \<or> typeof text \<noteq> ''string'' then
        Inl (ValidationError (lit ''Text is required and must be a string'') (Some (lit ''text'')))
      else
        let trimmedText = trim (string_of text) in
        if length trimmedText = 0 then
          Inl (ValidationError (lit ''Text cannot be empty'') (Some (lit ''text'')))
        else
          let wordCount = countWords trimmedText in
          if wordCount > MAX_WORDS_PER_TEXT then
            Inl (ValidationError
              (lit ''Text exceeds maximum word limit. Got '' @ show_nat wordCount @
               lit '' words, maximum is '' @ show_nat MAX_WORDS_PER_TEXT)
              (Some (lit ''text'')))
          else Inr ())"

text \<open>
  \<open>texts.forEach((text, index) => ...)\<close>: the callback runs on each element with its
  index, in order, and is not called for a hole; a \<open>throw\<close> in the callback leaves the
  loop.
\<close>

fun forEach :: "(jsval \<Rightarrow> nat \<Rightarrow> EmotionAnalyzerError + unit) \<Rightarrow> jsval option list \<Rightarrow>
    nat \<Rightarrow> EmotionAnalyzerError + unit" where
  "forEach f [] index = Inr ()"
| "forEach f (None # rest) index = forEach f rest (Suc index)"
| "forEach f (Some text # rest) index =
     (case f text index of Inl e \<Rightarrow> Inl e | Inr u \<Rightarrow> forEach f rest (Suc index))"

text \<open>The callback of \<open>validateBatchTexts\<close>.\<close>

definition validateBatchElement :: "jsval \<Rightarrow> nat \<Rightarrow> EmotionAnalyzerError + unit" where
  "validateBatchElement text index =
     (if \<not> ToBoolean text \<or> typeof text \<noteq> ''string'' then
        Inl (ValidationError
          (lit ''Text at index '' @ show_nat index @ lit '' is required and must be a string'')
          (Some (lit ''texts'')))
      else
        let trimmedText = trim (string_of text) in
        if length trimmedText = 0 then
          Inl (ValidationError
            (lit ''Text at index '' @ show_nat index @ lit '' cannot be empty'')
            (Some (lit ''texts'')))
        else
          let wordCount = countWords trimmedText in
          if wordCount > MAX_WORDS_PER_TEXT then
            Inl (ValidationError
              (lit ''Text at index '' @ show_nat index @
               lit '' exceeds maximum word limit. Got '' @ show_nat wordCount @
               lit '' words, maximum is '' @ show_nat MAX_WORDS_PER_TEXT)
              (Some (lit ''texts'')))
          else Inr ())"

definition validateBatchTexts :: "jsval \<Rightarrow> EmotionAnalyzerError + unit" where
  "validateBatchTexts texts =
     (if \<not> isArray texts then
        Inl (ValidationError (lit ''Texts must be an array'') (Some (lit ''texts'')))
      else if length (elements texts) = 0 then
        Inl (ValidationError (lit ''At least one text is required'') (Some (lit ''texts'')))
      else if length (elements texts) > MAX_BATCH_SIZE then
        Inl (ValidationError
          (lit ''Batch size exceeds maximum limit. Got '' @ show_nat (length (elements texts)) @
           lit '' texts, maximum is '' @ show_nat MAX_BATCH_SIZE)
          (Some (lit ''texts'')))
      else forEach validateBatchElement (elements texts) 0)"

subsection \<open>The request\<close>

text \<open>
  What \<open>fetch\<close> is called with (\<open>http_method\<close> is its \<open>method\<close>). \<open>body\<close> is the value that \<open>JSON.stringify\<close> serialises.
  The abort signal is not a field: an abort shows as the rejection of \<open>fetch\<close> with an
  \<open>Error\<close> named \<open>AbortError\<close>.
\<close>

record http_request =
  url :: jsstring
  http_method :: jsstring
  headers :: "(jsstring \<times> jsstring) list"
  body :: jsval

text \<open>
  What the code reads of a \<open>Response\<close>: \<open>status\<close>; \<open>headers.get('Retry-After')\<close>
  (\<open>None\<close> for \<open>null\<close>); the outcome of \<open>text()\<close> (\<open>None\<close> when it rejects); the outcome
  of \<open>json()\<close>, a thrown value or the body as the shape \<open>T\<close> the caller casts it to.
\<close>

record 'a http_response =
  status :: nat
  retry_after_header :: "jsstring option"
  text_result :: "jsstring option"
  json_result :: "foreign + 'a"

text \<open>\<open>response.ok\<close>, by the Fetch standard.\<close>

definition ok :: "'a http_response \<Rightarrow> bool" where
  "ok response = (200 \<le> status response \<and> status response \<le> 299)"

datatype 'a fetch_result = Rejected foreign | Resolved "'a http_response"

text \<open>
  The platform functions the request calls. \<open>JSON_parse\<close> is \<open>None\<close> where \<open>JSON.parse\<close>
  throws; \<open>Number_toString\<close> gives the digits of a number.
\<close>

record 'a platform =
  fetch :: "http_request \<Rightarrow> 'a fetch_result"
  JSON_parse :: "jsstring \<Rightarrow> jsval option"
  Number_toString :: "jsnum \<Rightarrow> jsstring"

text \<open>\<open>await response.text().catch(() => '')\<close>.\<close>

definition response_text :: "'a http_response \<Rightarrow> jsstring" where
  "response_text response = (case text_result response of None \<Rightarrow> [] | Some t \<Rightarrow> t)"

text \<open>
  What the branch \<open>!response.ok\<close> throws. The inner \<open>try\<close> keeps the default message
  when \<open>JSON.parse\<close> throws and when reading \<open>errorData.detail\<close> throws.
\<close>

definition thrown_of_response :: "'a platform \<Rightarrow> 'a http_response \<Rightarrow> thrown" where
  "thrown_of_response P response =
     (let responseText = response_text response in
      if status response = 429 then
        let retryAfter = retry_after_header response in
        Own (RateLimitError
          (lit ''Rate limit exceeded. Please wait before making more requests.'')
          (case retryAfter of
             None \<Rightarrow> None
           | Some h \<Rightarrow> if h \<noteq> [] then Some (parseInt10 h) else None))
      else
        let errorMessage = lit ''API request failed with status '' @ show_nat (status response);
            errorMessage' =
              (case JSON_parse P responseText of
                 None \<Rightarrow> JStr errorMessage
               | Some errorData \<Rightarrow>
                   if throws_on_read errorData then JStr errorMessage
                   else js_or (js_or (js_or (read_field errorData (lit ''detail''))
                                           (read_field errorData (lit ''message'')))
                                     (read_field errorData (lit ''error'')))
                              (JStr errorMessage))
        in throw_new_ApiError (Number_toString P) errorMessage' (status response) responseText)"

fun catch_block :: "EmotionAnalyzer \<Rightarrow> thrown \<Rightarrow> EmotionAnalyzerError" where
  "catch_block this (Own e) = e"
| "catch_block this (Foreign (JsError name msg is_TypeError)) =
     (if name = lit ''AbortError'' then new_TimeoutError (timeout this)
      else if is_TypeError then
        NetworkError (lit ''Failed to connect to the API. Please check your network connection.'')
          (Some (JsError name msg is_TypeError))
      else NetworkError msg (Some (JsError name msg is_TypeError)))"
| "catch_block this (Foreign (NonError v)) =
     NetworkError (lit ''An unexpected error occurred'') None"

text \<open>The arguments of the call of \<open>fetch\<close>: the URL and the options object.\<close>

definition fetch_args :: "jsstring \<Rightarrow> jsval \<Rightarrow> http_request" where
  "fetch_args u payload =
     \<lparr>url = u, http_method = lit ''POST'',
      headers = [(lit ''Content-Type'', lit ''application/json'')],
      body = payload\<rparr>"

definition request ::
    "EmotionAnalyzer \<Rightarrow> 'a platform \<Rightarrow> jsstring \<Rightarrow> jsval \<Rightarrow> EmotionAnalyzerError + 'a" where
  "request this P endpoint payload =
     (case fetch P (fetch_args (baseUrl this @ endpoint) payload) of
        Rejected err \<Rightarrow> Inl (catch_block this (Foreign err))
      | Resolved response \<Rightarrow>
          if \<not> ok response then Inl (catch_block this (thrown_of_response P response))
          else (case json_result response of
                  Inl err \<Rightarrow> Inl (catch_block this (Foreign err))
                | Inr v \<Rightarrow> Inr v))"

subsection \<open>The public operations\<close>

definition analyze ::
    "EmotionAnalyzer \<Rightarrow> ApiAnalyzeResponse platform \<Rightarrow> jsval \<Rightarrow>
     EmotionAnalyzerError + EmotionResult" where
  "analyze this P text =
     (case validateText text of
        Inl e \<Rightarrow> Inl e
      | Inr u \<Rightarrow>
          (case request this P (lit ''/api/v1/analyze'')
                  (JObj [(lit ''text'', JStr (trim (string_of text)))]) of
             Inl e \<Rightarrow> Inl e
           | Inr response \<Rightarrow> Inr (transformResponse response)))"

text \<open>
  The payload of the batch request: \<open>{texts: texts.map(t => t.trim())}\<close>. \<open>map\<close> calls
  its function on the elements and leaves the holes.
\<close>

definition batch_payload :: "jsval \<Rightarrow> jsval" where
  "batch_payload texts =
     JObj [(lit ''texts'',
            JArr (map (map_option (\<lambda>t. JStr (trim (string_of t)))) (elements texts)))]"

definition analyzeBatch ::
    "EmotionAnalyzer \<Rightarrow> ApiBatchResponse platform \<Rightarrow> jsval \<Rightarrow>
     EmotionAnalyzerError + BatchEmotionResult" where
  "analyzeBatch this P texts =
     (case validateBatchTexts texts of
        Inl e \<Rightarrow> Inl e
      | Inr u \<Rightarrow>
          (case request this P (lit ''/api/v1/analyze/batch'') (batch_payload texts) of
             Inl e \<Rightarrow> Inl e
           | Inr response \<Rightarrow>
               Inr \<lparr>results = map transformResponse (api_results response),
                    count = api_count response\<rparr>))"

subsection \<open>The client over its lifetime\<close>

text \<open>
  \<open>baseUrl\<close> and \<open>timeout\<close> are \<open>private readonly\<close>: the constructor assigns them and
  no method does. A call of a public method gives its result and leaves the client
  as it was; \<open>client_after\<close> is the client after a sequence of calls.
\<close>

datatype method_call =
    CallAnalyze "ApiAnalyzeResponse platform" jsval
  | CallAnalyzeBatch "ApiBatchResponse platform" jsval

datatype method_result =
    Analyzed "EmotionAnalyzerError + EmotionResult"
  | AnalyzedBatch "EmotionAnalyzerError + BatchEmotionResult"

fun call_method :: "EmotionAnalyzer \<Rightarrow> method_call \<Rightarrow> EmotionAnalyzer \<times> method_result" where
  "call_method this (CallAnalyze P text) = (this, Analyzed (analyze this P text))"
| "call_method this (CallAnalyzeBatch P texts) = (this, AnalyzedBatch (analyzeBatch this P texts))"

fun client_after :: "EmotionAnalyzer \<Rightarrow> method_call list \<Rightarrow> EmotionAnalyzer" where
  "client_after this [] = this"
| "client_after this (c # cs) = client_after (fst (call_method this c)) cs"

section \<open>Notions of the specification\<close>

text \<open>The generic message of an \<open>ApiError\<close> for the status \<open>n\<close>.\<close>

definition generic_message :: "nat \<Rightarrow> jsstring" where
  "generic_message n = lit ''API request failed with status '' @ show_nat n"

text \<open>
  The parsed body of an error response, when there is one that has fields to read:
  \<open>None\<close> when the text of the body (the empty text when it cannot be read) does not
  parse as JSON and when it parses to \<open>null\<close>.
\<close>

definition parsed_body :: "'a platform \<Rightarrow> 'a http_response \<Rightarrow> jsval option" where
  "parsed_body P r =
     (case JSON_parse P (case text_result r of None \<Rightarrow> [] | Some t \<Rightarrow> t) of
        None \<Rightarrow> None
      | Some d \<Rightarrow> if throws_on_read d then None else Some d)"

text \<open>
  The first of the fields \<open>detail\<close>, \<open>message\<close>, \<open>error\<close> of a parsed body whose value
  is truthy: not absent, \<open>null\<close>, \<open>false\<close>, zero or the empty string.
\<close>

definition first_truthy_field :: "jsval \<Rightarrow> jsval option" where
  "first_truthy_field d =
     find ToBoolean
       [read_field d (lit ''detail''), read_field d (lit ''message''), read_field d (lit ''error'')]"

text \<open>
  The message of an \<open>ApiError\<close> as the specification words it: the first of \<open>detail\<close>,
  \<open>message\<close>, \<open>error\<close> that is present, and the generic message when the body does not
  parse or has none of them.
\<close>

definition spec_error_message :: "nat \<Rightarrow> jsval option \<Rightarrow> jsval" where
  "spec_error_message n parsed =
     (case parsed of
        None \<Rightarrow> JStr (generic_message n)
      | Some d \<Rightarrow>
          (case find (\<lambda>v. v \<noteq> JUndefined)
                  [read_field d (lit ''detail''), read_field d (lit ''message''),
                   read_field d (lit ''error'')] of
             None \<Rightarrow> JStr (generic_message n)
           | Some v \<Rightarrow> v))"

text \<open>
  The words of a text counted directly: the positions that hold a character that is
  not white space and that come first in the text or after a white space character.
\<close>

fun word_starts :: "bool \<Rightarrow> jsstring \<Rightarrow> nat" where
  "word_starts after_ws [] = 0"
| "word_starts after_ws (c # cs) =
     (if \<not> is_ws c \<and> after_ws then 1 else 0) + word_starts (is_ws c) cs"

definition ends_with_slash :: "jsstring \<Rightarrow> bool" where
  "ends_with_slash s = (s \<noteq> [] \<and> last s = 0x002F)"

section \<open>Example values\<close>

definition example_client :: EmotionAnalyzer where
  "example_client = \<lparr>baseUrl = lit ''http://localhost:8000'', timeout = 50\<rparr>"

text \<open>
  A platform whose \<open>fetch\<close> has the same outcome for every request and whose
  \<open>JSON.parse\<close> parses the one text \<open>t\<close>, to the value \<open>d\<close>.
\<close>

definition parsing_platform :: "'a fetch_result \<Rightarrow> jsstring \<Rightarrow> jsval \<Rightarrow> 'a platform" where
  "parsing_platform outcome t d =
     \<lparr>fetch = (\<lambda>q. outcome), JSON_parse = (\<lambda>u. if u = t then Some d else None),
      Number_toString = (\<lambda>n. [])\<rparr>"

text \<open>The same with a \<open>JSON.parse\<close> that parses no text.\<close>

definition example_platform :: "'a fetch_result \<Rightarrow> 'a platform" where
  "example_platform outcome =
     \<lparr>fetch = (\<lambda>q. outcome), JSON_parse = (\<lambda>u. None), Number_toString = (\<lambda>n. [])\<rparr>"

text \<open>A response with an error status, whose body is text that \<open>json()\<close> rejects.\<close>

definition error_response :: "nat \<Rightarrow> jsstring option \<Rightarrow> jsstring \<Rightarrow> 'a http_response" where
  "error_response n retry_after t =
     \<lparr>status = n, retry_after_header = retry_after, text_result = Some t,
      json_result = Inl (JsError (lit ''SyntaxError'') (lit ''Unexpected token'') False)\<rparr>"

definition ok_response :: "'a \<Rightarrow> 'a http_response" where
  "ok_response w =
     \<lparr>status = 200, retry_after_header = None, text_result = None, json_result = Inr w\<rparr>"

definition joy :: ApiAnalyzeResponse where
  "joy = \<lparr>primary_emotion = lit ''joy'', api_confidence = Num (9 / 10),
          all_emotions = [\<lparr>emotion = lit ''joy'', score = Num (9 / 10)\<rparr>]\<rparr>"

text \<open>
  A platform that answers one request and no other: the POST of \<open>{text: "I am happy"}\<close>
  as JSON to \<open>http://localhost:8000/api/v1/analyze\<close>.
\<close>

definition analyze_only_platform :: "ApiAnalyzeResponse platform" where
  "analyze_only_platform =
     \<lparr>fetch = (\<lambda>q. if q = \<lparr>url = lit ''http://localhost:8000/api/v1/analyze'',
                              http_method = lit ''POST'',
                              headers = [(lit ''Content-Type'', lit ''application/json'')],
                              body = JObj [(lit ''text'', JStr (lit ''I am happy''))]\<rparr>
                   then Resolved (ok_response joy)
                   else Rejected (JsError (lit ''TypeError'') (lit ''fetch failed'') True)),
      JSON_parse = (\<lambda>u. None), Number_toString = (\<lambda>n. [])\<rparr>"

section \<open>White space and trimming\<close>

lemma dropWhile_unchanged: "xs = [] \<or> \<not> P (hd xs) \<Longrightarrow> dropWhile P xs = xs"
  by (cases xs) auto

lemma trim_hd: "trim s \<noteq> [] \<Longrightarrow> \<not> is_ws (hd (trim s))"
proof -
  assume ne: "trim s \<noteq> []"
  define t where "t = dropWhile is_ws s"
  define u where "u = dropWhile is_ws (rev t)"
  have tr: "trim s = rev u" by (simp add: trim_def t_def u_def)
  with ne have une: "u \<noteq> []" by simp
  obtain w where w: "rev t = w @ u"
    unfolding u_def by (metis takeWhile_dropWhile_id)
  then have "t = rev u @ rev w" by (metis rev_append rev_rev_ident)
  with une have "hd t = hd (rev u)" and "t \<noteq> []" by auto
  moreover have "\<not> is_ws (hd t)" using \<open>t \<noteq> []\<close> unfolding t_def by (simp add: hd_dropWhile)
  ultimately show ?thesis using tr by simp
qed

lemma trim_last: "trim s \<noteq> [] \<Longrightarrow> \<not> is_ws (last (trim s))"
proof -
  assume ne: "trim s \<noteq> []"
  then have "dropWhile is_ws (rev (dropWhile is_ws s)) \<noteq> []" by (simp add: trim_def)
  then have "\<not> is_ws (hd (dropWhile is_ws (rev (dropWhile is_ws s))))"
    by (simp add: hd_dropWhile)
  then show ?thesis using ne by (simp add: trim_def last_rev)
qed

lemma trim_fixed:
  assumes "s = [] \<or> (\<not> is_ws (hd s) \<and> \<not> is_ws (last s))"
  shows "trim s = s"
proof (cases "s = []")
  case True
  then show ?thesis by (simp add: trim_def)
next
  case False
  with assms have h: "\<not> is_ws (hd s)" and l: "\<not> is_ws (last s)" by auto
  have a: "dropWhile is_ws s = s" using h by (simp add: dropWhile_unchanged)
  have "\<not> is_ws (hd (rev s))" using l False by (simp add: hd_rev)
  then have "dropWhile is_ws (rev s) = rev s" by (simp add: dropWhile_unchanged)
  with a show ?thesis by (simp add: trim_def)
qed

lemma trim_trim: "trim (trim s) = trim s"
  using trim_fixed [of "trim s"] trim_hd [of s] trim_last [of s] by blast

lemma countWords_trim: "countWords (trim s) = countWords s"
  by (simp add: countWords_def trim_trim)

text \<open>\<open>countWords\<close> counts the maximal runs of characters that are not white space.\<close>

lemma word_starts_dropWhile: "word_starts True (dropWhile is_ws s) = word_starts True s"
  by (induction s) auto

lemma word_starts_append_ws:
  "\<forall>c\<in>set ys. is_ws c \<Longrightarrow> word_starts p (xs @ ys) = word_starts p xs"
proof (induction xs arbitrary: p)
  case Nil
  then show ?case by (induction ys arbitrary: p) auto
next
  case (Cons x xs)
  then show ?case by simp
qed

lemma word_starts_trim: "word_starts True (trim s) = word_starts True s"
proof -
  define t where "t = dropWhile is_ws s"
  have "rev t = takeWhile is_ws (rev t) @ dropWhile is_ws (rev t)" by simp
  then have "t = rev (dropWhile is_ws (rev t)) @ rev (takeWhile is_ws (rev t))"
    by (metis rev_append rev_rev_ident)
  then have t: "t = trim s @ rev (takeWhile is_ws (rev t))" by (simp add: trim_def t_def)
  have "\<forall>c\<in>set (rev (takeWhile is_ws (rev t))). is_ws c"
    by (auto dest: set_takeWhileD)
  then have "word_starts True (trim s @ rev (takeWhile is_ws (rev t))) = word_starts True (trim s)"
    by (rule word_starts_append_ws)
  with t have "word_starts True t = word_starts True (trim s)" by simp
  then show ?thesis by (simp add: t_def word_starts_dropWhile)
qed

lemma split_ws_from_count:
  "length (filter (\<lambda>word. word \<noteq> []) (split_ws_from cur s)) =
     (if cur = [] then word_starts True s else 1 + word_starts False s)"
proof (induction cur s rule: split_ws_from.induct)
  case (1 cur)
  then show ?case by simp
next
  case (2 cur c cs)
  show ?case
  proof (cases "is_ws c")
    case True
    with 2 show ?thesis by (simp add: word_starts_dropWhile)
  next
    case False
    with 2 show ?thesis by simp
  qed
qed

lemma countWords_word_starts: "countWords s = word_starts True s"
  by (simp add: countWords_def split_ws_def split_ws_from_count word_starts_trim)

section \<open>Validation\<close>

lemma validateText_not_string:
  "\<forall>s. v \<noteq> JStr s \<Longrightarrow>
   validateText v = Inl (ValidationError (lit ''Text is required and must be a string'') (Some (lit ''text'')))"
  by (cases v) (simp_all add: validateText_def)

lemma validateText_JStr:
  "validateText (JStr s) =
     (if s = [] then Inl (ValidationError (lit ''Text is required and must be a string'') (Some (lit ''text'')))
      else if trim s = [] then Inl (ValidationError (lit ''Text cannot be empty'') (Some (lit ''text'')))
      else if MAX_WORDS_PER_TEXT < countWords s then
        Inl (ValidationError
              (lit ''Text exceeds maximum word limit. Got '' @ show_nat (countWords s) @
               lit '' words, maximum is '' @ show_nat MAX_WORDS_PER_TEXT)
              (Some (lit ''text'')))
      else Inr ())"
  by (simp add: validateText_def countWords_trim Let_def)

lemma validateText_passes_string:
  "validateText v = Inr () \<Longrightarrow> \<exists>s. v = JStr s"
  by (cases v) (simp_all add: validateText_def)

lemma trim_Nil: "trim [] = []"
  by (simp add: trim_def)

text \<open>
  C4. Single-text validation fails with a \<open>ValidationError\<close> whose field is \<open>text\<close>
  exactly in these cases: the value is not a string (\<open>undefined\<close> and \<open>null\<close> included),
  the string trims to empty, or its word count is above 100. The word count is that of
  \<open>countWords\<close> on the text: the number of non-empty pieces of the trimmed text split at
  the runs of white space. Over the limit, the message gives the word count and the
  maximum 100. Every other string passes.
\<close>

theorem validateText_cases:
  "((\<forall>s. v \<noteq> JStr s) \<longrightarrow>
      (\<exists>m. validateText v = Inl (ValidationError m (Some (lit ''text'')))))
   \<and> (trim s = [] \<longrightarrow>
      (\<exists>m. validateText (JStr s) = Inl (ValidationError m (Some (lit ''text'')))))
   \<and> (trim s \<noteq> [] \<and> 100 < countWords s \<longrightarrow>
      validateText (JStr s) =
        Inl (ValidationError
              (lit ''Text exceeds maximum word limit. Got '' @ show_nat (countWords s) @
               lit '' words, maximum is '' @ show_nat 100)
              (Some (lit ''text''))))
   \<and> (trim s \<noteq> [] \<and> countWords s \<le> 100 \<longrightarrow> validateText (JStr s) = Inr ())"
proof (intro conjI impI)
  assume "\<forall>s. v \<noteq> JStr s"
  then show "\<exists>m. validateText v = Inl (ValidationError m (Some (lit ''text'')))"
    by (simp add: validateText_not_string)
next
  assume "trim s = []"
  then show "\<exists>m. validateText (JStr s) = Inl (ValidationError m (Some (lit ''text'')))"
    by (simp add: validateText_JStr)
next
  assume "trim s \<noteq> [] \<and> 100 < countWords s"
  moreover from this have "s \<noteq> []" using trim_Nil by auto
  ultimately show "validateText (JStr s) =
        Inl (ValidationError
              (lit ''Text exceeds maximum word limit. Got '' @ show_nat (countWords s) @
               lit '' words, maximum is '' @ show_nat 100)
              (Some (lit ''text'')))"
    by (simp add: validateText_JStr MAX_WORDS_PER_TEXT_def)
next
  assume "trim s \<noteq> [] \<and> countWords s \<le> 100"
  moreover from this have "s \<noteq> []" using trim_Nil by auto
  ultimately show "validateText (JStr s) = Inr ()"
    by (simp add: validateText_JStr MAX_WORDS_PER_TEXT_def)
qed

theorem validateText_cases_witness:
  "(\<exists>m. validateText JNull = Inl (ValidationError m (Some (lit ''text''))))
   \<and> (\<exists>m. validateText (JStr (lit ''   '')) = Inl (ValidationError m (Some (lit ''text''))))
   \<and> validateText (JStr (concat (replicate 101 (lit ''a '')))) =
        Inl (ValidationError (lit ''Text exceeds maximum word limit. Got 101 words, maximum is 100'')
              (Some (lit ''text'')))
   \<and> validateText (JStr (lit ''I am so happy today'')) = Inr ()"
proof -
  have a: "\<forall>s. JNull \<noteq> JStr s" by simp
  have b: "trim (lit ''   '') = []" by code_simp
  have c: "trim (concat (replicate 101 (lit ''a ''))) \<noteq> [] \<and>
           100 < countWords (concat (replicate 101 (lit ''a '')))" by code_simp
  have c': "countWords (concat (replicate 101 (lit ''a ''))) = 101" by code_simp
  have d: "trim (lit ''I am so happy today'') \<noteq> [] \<and> countWords (lit ''I am so happy today'') \<le> 100"
    by code_simp
  have e: "lit ''Text exceeds maximum word limit. Got '' @ show_nat 101 @
               lit '' words, maximum is '' @ show_nat 100 =
           lit ''Text exceeds maximum word limit. Got 101 words, maximum is 100''"
    by code_simp
  show ?thesis
    using validateText_cases [of JNull "lit ''   ''"]
      validateText_cases [of JNull "concat (replicate 101 (lit ''a ''))"]
      validateText_cases [of JNull "lit ''I am so happy today''"]
      a b c c' d e
    by (metis (no_types, lifting))
qed

text \<open>The callback repeats the checks of \<open>validateText\<close>; only the texts differ.\<close>

lemma validateBatchElement_eq:
  "validateBatchElement x i =
     (case validateText x of
        Inr u \<Rightarrow> Inr ()
      | Inl e \<Rightarrow> Inl (ValidationError (lit ''Text at index '' @ show_nat i @ drop 4 (error_message e))
                       (Some (lit ''texts''))))"
  by (simp add: validateBatchElement_def validateText_def Let_def lit_def)

lemma forEach_first_failure:
  "i < length xs \<Longrightarrow> (\<forall>j<i. \<forall>y. xs ! j = Some y \<longrightarrow> f y (k + j) = Inr ()) \<Longrightarrow>
   xs ! i = Some x \<Longrightarrow> f x (k + i) = Inl e \<Longrightarrow> forEach f xs k = Inl e"
proof (induction xs arbitrary: i k)
  case Nil
  then show ?case by simp
next
  case (Cons a xs)
  show ?case
  proof (cases i)
    case 0
    with Cons.prems show ?thesis by simp
  next
    case (Suc n)
    have tail: "forEach f xs (Suc k) = Inl e"
    proof (rule Cons.IH [of n])
      show "n < length xs" using Cons.prems Suc by simp
      show "\<forall>j<n. \<forall>y. xs ! j = Some y \<longrightarrow> f y (Suc k + j) = Inr ()"
      proof (intro allI impI)
        fix j y assume "j < n" and "xs ! j = Some y"
        then have "Suc j < i" and "(a # xs) ! Suc j = Some y" using Suc by simp_all
        with Cons.prems(2) have "f y (k + Suc j) = Inr ()" by blast
        then show "f y (Suc k + j) = Inr ()" by simp
      qed
      show "xs ! n = Some x" using Cons.prems(3) Suc by simp
      show "f x (Suc k + n) = Inl e" using Cons.prems(4) Suc by simp
    qed
    show ?thesis
    proof (cases a)
      case None
      with tail show ?thesis by simp
    next
      case (Some y)
      with Cons.prems(2) Suc have "f y k = Inr ()" by force
      with Some tail show ?thesis by simp
    qed
  qed
qed

lemma forEach_all_pass:
  "(\<forall>x i. Some x \<in> set xs \<longrightarrow> f x i = Inr ()) \<Longrightarrow> forEach f xs k = Inr ()"
proof (induction xs arbitrary: k)
  case Nil
  then show ?case by simp
next
  case (Cons a xs)
  then show ?case by (cases a) auto
qed

lemma forEach_error_from_callback:
  "forEach f xs k = Inl e \<Longrightarrow> \<exists>x i. f x i = Inl e"
proof (induction xs arbitrary: k)
  case Nil
  then show ?case by simp
next
  case (Cons a xs)
  then show ?case by (cases a) (auto split: sum.splits)
qed

text \<open>\<open>forEach\<close> does not see the holes.\<close>

lemma forEach_holes: "forEach f (replicate n None) k = Inr ()"
  by (induction n arbitrary: k) simp_all

lemma validateBatchTexts_JArr:
  "validateBatchTexts (JArr xs) =
     (if xs = [] then Inl (ValidationError (lit ''At least one text is required'') (Some (lit ''texts'')))
      else if MAX_BATCH_SIZE < length xs then
        Inl (ValidationError
          (lit ''Batch size exceeds maximum limit. Got '' @ show_nat (length xs) @
           lit '' texts, maximum is '' @ show_nat MAX_BATCH_SIZE)
          (Some (lit ''texts'')))
      else forEach validateBatchElement xs 0)"
  by (simp add: validateBatchTexts_def)

lemma validateBatchTexts_not_array:
  "\<forall>xs. v \<noteq> JArr xs \<Longrightarrow>
   validateBatchTexts v = Inl (ValidationError (lit ''Texts must be an array'') (Some (lit ''texts'')))"
  by (cases v) (simp_all add: validateBatchTexts_def)

text \<open>
  What batch validation does on every value. It fails with a \<open>ValidationError\<close> whose
  field is \<open>texts\<close> when the value is not an array, when the array has length 0 and when
  its length is above 10. Otherwise the checks run on the elements in order, and not
  on the holes: when element \<open>i\<close> is the first that \<open>validateText\<close> rejects, with error
  \<open>e\<close>, the batch fails with the one error whose message is that of \<open>e\<close> with \<open>Text\<close>
  replaced by \<open>Text at index i\<close>; when no element is rejected, the batch passes.
\<close>

lemma validateBatchTexts_cases:
  "((\<forall>ys. v \<noteq> JArr ys) \<longrightarrow>
      validateBatchTexts v =
        Inl (ValidationError (lit ''Texts must be an array'') (Some (lit ''texts''))))
   \<and> validateBatchTexts (JArr []) =
        Inl (ValidationError (lit ''At least one text is required'') (Some (lit ''texts'')))
   \<and> (10 < length xs \<longrightarrow>
        validateBatchTexts (JArr xs) =
          Inl (ValidationError
            (lit ''Batch size exceeds maximum limit. Got '' @ show_nat (length xs) @
             lit '' texts, maximum is '' @ show_nat 10)
            (Some (lit ''texts''))))
   \<and> (length xs \<le> 10 \<and> i < length xs \<and>
        (\<forall>j<i. \<forall>y. xs ! j = Some y \<longrightarrow> validateText y = Inr ()) \<and>
        xs ! i = Some x \<and> validateText x = Inl e \<longrightarrow>
        validateBatchTexts (JArr xs) =
          Inl (ValidationError (lit ''Text at index '' @ show_nat i @ drop 4 (error_message e))
                (Some (lit ''texts''))))
   \<and> (xs \<noteq> [] \<and> length xs \<le> 10 \<and> (\<forall>y. Some y \<in> set xs \<longrightarrow> validateText y = Inr ()) \<longrightarrow>
        validateBatchTexts (JArr xs) = Inr ())"
proof (intro conjI impI)
  assume "\<forall>ys. v \<noteq> JArr ys"
  then show "validateBatchTexts v =
      Inl (ValidationError (lit ''Texts must be an array'') (Some (lit ''texts'')))"
    by (rule validateBatchTexts_not_array)
next
  show "validateBatchTexts (JArr []) =
      Inl (ValidationError (lit ''At least one text is required'') (Some (lit ''texts'')))"
    by (simp add: validateBatchTexts_JArr)
next
  assume "10 < length xs"
  then show "validateBatchTexts (JArr xs) =
          Inl (ValidationError
            (lit ''Batch size exceeds maximum limit. Got '' @ show_nat (length xs) @
             lit '' texts, maximum is '' @ show_nat 10)
            (Some (lit ''texts'')))"
    by (auto simp: validateBatchTexts_JArr MAX_BATCH_SIZE_def)
next
  assume h: "length xs \<le> 10 \<and> i < length xs \<and>
        (\<forall>j<i. \<forall>y. xs ! j = Some y \<longrightarrow> validateText y = Inr ()) \<and>
        xs ! i = Some x \<and> validateText x = Inl e"
  let ?err = "ValidationError (lit ''Text at index '' @ show_nat i @ drop 4 (error_message e))
                (Some (lit ''texts''))"
  have "forEach validateBatchElement xs 0 = Inl ?err"
  proof (rule forEach_first_failure [of i xs _ _ x])
    show "i < length xs" using h by simp
    show "\<forall>j<i. \<forall>y. xs ! j = Some y \<longrightarrow> validateBatchElement y (0 + j) = Inr ()"
      using h by (simp add: validateBatchElement_eq)
    show "xs ! i = Some x" using h by simp
    show "validateBatchElement x (0 + i) = Inl ?err"
      using h by (simp add: validateBatchElement_eq)
  qed
  moreover have "xs \<noteq> []" using h by auto
  ultimately show "validateBatchTexts (JArr xs) = Inl ?err"
    using h by (simp add: validateBatchTexts_JArr MAX_BATCH_SIZE_def)
next
  assume h: "xs \<noteq> [] \<and> length xs \<le> 10 \<and> (\<forall>y. Some y \<in> set xs \<longrightarrow> validateText y = Inr ())"
  then have "forEach validateBatchElement xs 0 = Inr ()"
    by (intro forEach_all_pass) (simp add: validateBatchElement_eq)
  with h show "validateBatchTexts (JArr xs) = Inr ()"
    by (simp add: validateBatchTexts_JArr MAX_BATCH_SIZE_def)
qed

text \<open>The examples of the specification, on arrays without holes.\<close>

lemma validateBatchTexts_examples:
  "validateBatchTexts JNull =
     Inl (ValidationError (lit ''Texts must be an array'') (Some (lit ''texts'')))
   \<and> validateBatchTexts (JArr (replicate 11 (Some (JStr (lit ''ok''))))) =
     Inl (ValidationError (lit ''Batch size exceeds maximum limit. Got 11 texts, maximum is 10'')
           (Some (lit ''texts'')))
   \<and> validateBatchTexts (JArr [Some (JStr (lit ''ok'')), Some (JStr []), Some (JStr (lit ''ok''))]) =
     Inl (ValidationError (lit ''Text at index 1 is required and must be a string'')
           (Some (lit ''texts'')))
   \<and> validateBatchTexts (JArr [Some (JStr (lit ''ok'')), Some (JStr (lit ''fine''))]) = Inr ()"
  by code_simp

text \<open>
  C3. Batch validation applies the single-text checks to each element in order and
  fails at the first that they reject, with a message that gives its index. The code
  does not do so on an array with holes, because \<open>forEach\<close> skips them: the arrays
  \<open>['ok', , 'ok']\<close> and \<open>new Array(3)\<close> pass, although what they hold at index 1 and at
  index 0 is \<open>undefined\<close>, which the single-text checks reject, as they do in the array
  \<open>['ok', undefined, 'ok']\<close>.
\<close>

theorem validateBatchTexts_sparse:
  "validateBatchTexts (JArr [Some (JStr (lit ''ok'')), None, Some (JStr (lit ''ok''))]) = Inr ()
   \<and> validateBatchTexts (JArr [None, None, None]) = Inr ()
   \<and> validateText JUndefined =
       Inl (ValidationError (lit ''Text is required and must be a string'') (Some (lit ''text'')))
   \<and> validateBatchTexts (JArr [Some (JStr (lit ''ok'')), Some JUndefined, Some (JStr (lit ''ok''))]) =
       Inl (ValidationError (lit ''Text at index 1 is required and must be a string'')
             (Some (lit ''texts'')))"
  by code_simp

theorem validateBatchTexts_sparse_witness:
  "validateBatchTexts (JArr [Some (JStr (lit ''ok'')), None, Some (JStr (lit ''ok''))]) \<noteq>
   validateBatchTexts (JArr [Some (JStr (lit ''ok'')), Some JUndefined, Some (JStr (lit ''ok''))])"
  using validateBatchTexts_sparse by simp

lemma validateBatchElement_error_shape:
  "validateBatchElement x i = Inl e \<Longrightarrow> \<exists>m. e = ValidationError m (Some (lit ''texts''))"
  by (auto simp: validateBatchElement_eq split: sum.splits)

lemma validateBatchTexts_error_shape:
  "validateBatchTexts v = Inl e \<Longrightarrow> \<exists>m. e = ValidationError m (Some (lit ''texts''))"
proof (cases "isArray v")
  case False
  assume "validateBatchTexts v = Inl e"
  with False show ?thesis by (auto simp: validateBatchTexts_def)
next
  case True
  assume h: "validateBatchTexts v = Inl e"
  show ?thesis
  proof (cases "forEach validateBatchElement (elements v) 0 = Inl e")
    case True
    then obtain x i where "validateBatchElement x i = Inl e"
      using forEach_error_from_callback by blast
    then show ?thesis by (rule validateBatchElement_error_shape)
  next
    case False
    with h show ?thesis by (auto simp: validateBatchTexts_def split: if_splits)
  qed
qed

lemma throw_new_ApiError_not_validation:
  "catch_block this (throw_new_ApiError N v n t) \<noteq> ValidationError m f"
proof (cases "ToString N v")
  case (Inl err)
  then show ?thesis
    by (cases err) (simp_all add: throw_new_ApiError_def new_TimeoutError_def)
next
  case (Inr s)
  then show ?thesis by (simp add: throw_new_ApiError_def)
qed

lemma thrown_of_response_not_validation:
  "catch_block this (thrown_of_response P r) \<noteq> ValidationError m f"
  by (simp add: thrown_of_response_def Let_def throw_new_ApiError_not_validation)

lemma catch_block_foreign_not_validation:
  "catch_block this (Foreign x) \<noteq> ValidationError m f"
  by (cases x) (simp_all add: new_TimeoutError_def)

lemma request_not_validation:
  "request this P endpoint payload \<noteq> Inl (ValidationError m f)"
  by (auto simp: request_def thrown_of_response_not_validation catch_block_foreign_not_validation
        split: fetch_result.splits sum.splits)

lemma lit_texts_neq_text: "lit ''texts'' \<noteq> lit ''text''"
  by (simp add: lit_def)

text \<open>
  C9. Every error of batch validation is a \<open>ValidationError\<close> with field \<open>texts\<close>, the
  failures of single elements included; a \<open>ValidationError\<close> that \<open>analyzeBatch\<close> returns
  has field \<open>texts\<close>, and no error that \<open>analyzeBatch\<close> returns has field \<open>text\<close>.
\<close>

theorem analyzeBatch_field_texts:
  "(validateBatchTexts v = Inl e \<longrightarrow> (\<exists>m. e = ValidationError m (Some (lit ''texts''))))
   \<and> (analyzeBatch this P v = Inl (ValidationError m' f) \<longrightarrow> f = Some (lit ''texts''))
   \<and> (analyzeBatch this P v = Inl e' \<longrightarrow> error_field e' \<noteq> Some (lit ''text''))"
proof -
  have field: "f = Some (lit ''texts'')" if "analyzeBatch this P v = Inl (ValidationError m' f)" for m' f
  proof (cases "validateBatchTexts v")
    case (Inl a)
    with that have "a = ValidationError m' f" by (simp add: analyzeBatch_def)
    with Inl show ?thesis using validateBatchTexts_error_shape by blast
  next
    case (Inr u)
    with that show ?thesis
      by (auto simp: analyzeBatch_def request_not_validation split: sum.splits)
  qed
  have "error_field e' \<noteq> Some (lit ''text'')" if "analyzeBatch this P v = Inl e'"
    using that field lit_texts_neq_text by (cases e') auto
  then show ?thesis using field validateBatchTexts_error_shape by blast
qed

theorem analyzeBatch_field_texts_witness:
  "validateBatchTexts (JArr [Some (JStr (lit ''ok'')), Some JNull]) =
     Inl (ValidationError (lit ''Text at index 1 is required and must be a string'')
           (Some (lit ''texts'')))
   \<and> analyzeBatch \<lparr>baseUrl = lit ''http://localhost'', timeout = 50\<rparr>
        (example_platform (Rejected (NonError JUndefined)))
        (JArr [Some (JStr (lit ''ok'')), Some JNull]) =
     Inl (ValidationError (lit ''Text at index 1 is required and must be a string'')
           (Some (lit ''texts'')))
   \<and> error_field (ValidationError (lit ''Text at index 1 is required and must be a string'')
           (Some (lit ''texts''))) \<noteq> Some (lit ''text'')"
proof -
  let ?v = "JArr [Some (JStr (lit ''ok'')), Some JNull]"
  let ?e = "ValidationError (lit ''Text at index 1 is required and must be a string'')
           (Some (lit ''texts''))"
  let ?an = "\<lparr>baseUrl = lit ''http://localhost'', timeout = 50\<rparr>"
  let ?P = "example_platform (Rejected (NonError JUndefined)) :: ApiBatchResponse platform"
  have a: "validateBatchTexts ?v = Inl ?e" by code_simp
  then have b: "analyzeBatch ?an ?P ?v = Inl ?e" by (simp add: analyzeBatch_def)
  show ?thesis
    using analyzeBatch_field_texts [where v = ?v and e = ?e and this = ?an and P = ?P and e' = ?e
        and m' = "lit ''Text at index 1 is required and must be a string''"
        and f = "Some (lit ''texts'')"] a b
    by simp
qed

section \<open>The request\<close>

lemma request_rejected:
  "fetch P (fetch_args (baseUrl this @ endpoint) payload) = Rejected x \<Longrightarrow>
   request this P endpoint payload = Inl (catch_block this (Foreign x))"
  by (simp add: request_def)

lemma request_not_ok:
  "fetch P (fetch_args (baseUrl this @ endpoint) payload) = Resolved r \<Longrightarrow> \<not> ok r \<Longrightarrow>
   request this P endpoint payload = Inl (catch_block this (thrown_of_response P r))"
  by (simp add: request_def)

lemma request_json_rejected:
  "fetch P (fetch_args (baseUrl this @ endpoint) payload) = Resolved r \<Longrightarrow> ok r \<Longrightarrow>
   json_result r = Inl x \<Longrightarrow>
   request this P endpoint payload = Inl (catch_block this (Foreign x))"
  by (simp add: request_def)

lemma request_ok:
  "fetch P (fetch_args (baseUrl this @ endpoint) payload) = Resolved r \<Longrightarrow> ok r \<Longrightarrow>
   json_result r = Inr w \<Longrightarrow>
   request this P endpoint payload = Inr w"
  by (simp add: request_def)

text \<open>
  C6. What the \<open>try\<close> block of \<open>request\<close> throws reaches the caller through the \<open>catch\<close>
  block: what the branch of a response that is not ok throws, and the value that
  \<open>fetch\<close> or \<open>json()\<close> rejects with. There an error of the library's own classes is
  passed on unchanged. An \<open>Error\<close> named \<open>AbortError\<close> becomes a \<open>TimeoutError\<close> whose
  \<open>timeout\<close> is the configured one. Any other \<open>Error\<close> becomes a \<open>NetworkError\<close> whose
  cause is that \<open>Error\<close>, and a value that is not an \<open>Error\<close> a \<open>NetworkError\<close> without
  cause.
\<close>

theorem request_reclassifies:
  "(fetch P (fetch_args (baseUrl this @ endpoint) payload) = Resolved r \<and> \<not> ok r \<longrightarrow>
      request this P endpoint payload = Inl (catch_block this (thrown_of_response P r)))
   \<and> catch_block this (Own e) = e
   \<and> (fetch P (fetch_args (baseUrl this @ endpoint) payload) = Rejected x \<or>
      (fetch P (fetch_args (baseUrl this @ endpoint) payload) = Resolved r \<and> ok r \<and>
       json_result r = Inl x) \<longrightarrow>
      request this P endpoint payload = Inl (catch_block this (Foreign x)))
   \<and> catch_block this (Foreign (JsError (lit ''AbortError'') msg is_TypeError)) =
        TimeoutError (lit ''Request timed out after '' @ show_int (timeout this) @ lit ''ms'')
          (timeout this)
   \<and> (name \<noteq> lit ''AbortError'' \<longrightarrow>
        (\<exists>m. catch_block this (Foreign (JsError name msg is_TypeError)) =
           NetworkError m (Some (JsError name msg is_TypeError))))
   \<and> (\<exists>m. catch_block this (Foreign (NonError v)) = NetworkError m None)"
  by (auto simp: request_rejected request_not_ok request_json_rejected new_TimeoutError_def)

theorem request_reclassifies_witness:
  "request example_client
      (example_platform (Resolved (error_response 503 None (lit ''busy''))))
      (lit ''/api/v1/analyze'') (JObj [(lit ''text'', JStr (lit ''hello''))]) =
     (Inl (ApiError (lit ''API request failed with status 503'') 503 (lit ''busy''))
        :: EmotionAnalyzerError + ApiAnalyzeResponse)
   \<and> request example_client
      (example_platform (Rejected (JsError (lit ''AbortError'') (lit ''This operation was aborted'') False)))
      (lit ''/api/v1/analyze'') (JObj [(lit ''text'', JStr (lit ''hello''))]) =
     (Inl (TimeoutError (lit ''Request timed out after 50ms'') 50)
        :: EmotionAnalyzerError + ApiAnalyzeResponse)
   \<and> (\<exists>m. request example_client
      (example_platform (Rejected (JsError (lit ''TypeError'') (lit ''fetch failed'') True)))
      (lit ''/api/v1/analyze'') (JObj [(lit ''text'', JStr (lit ''hello''))]) =
     (Inl (NetworkError m (Some (JsError (lit ''TypeError'') (lit ''fetch failed'') True)))
        :: EmotionAnalyzerError + ApiAnalyzeResponse))"
proof -
  let ?ep = "lit ''/api/v1/analyze''"
  let ?pl = "JObj [(lit ''text'', JStr (lit ''hello''))]"
  let ?r = "error_response 503 None (lit ''busy'') :: ApiAnalyzeResponse http_response"
  let ?abort = "JsError (lit ''AbortError'') (lit ''This operation was aborted'') False"
  let ?te = "JsError (lit ''TypeError'') (lit ''fetch failed'') True"
  have s503: "show_nat 503 = lit ''503''" by code_simp
  have s50: "show_int (timeout example_client) = lit ''50''"
    unfolding example_client_def by code_simp
  have e: "thrown_of_response (example_platform (Resolved ?r)) ?r =
           Own (ApiError (lit ''API request failed with status 503'') 503 (lit ''busy''))"
    by (simp add: thrown_of_response_def throw_new_ApiError_def example_platform_def
        error_response_def s503 lit_def response_text_def)
  have n: "lit ''TypeError'' \<noteq> lit ''AbortError''" by (simp add: lit_def)
  have t: "timeout example_client = 50" by (simp add: example_client_def)
  have m: "lit ''Request timed out after '' @ lit ''50'' @ lit ''ms'' = lit ''Request timed out after 50ms''"
    by (simp add: lit_def)
  show ?thesis
    using request_reclassifies [where this = example_client and P = "example_platform (Resolved ?r)"
        and endpoint = ?ep and payload = ?pl and r = ?r and name = "lit ''TypeError''"
        and msg = "lit ''fetch failed''" and is_TypeError = True]
      request_reclassifies [where this = example_client
        and P = "example_platform (Rejected ?abort) :: ApiAnalyzeResponse platform"
        and endpoint = ?ep and payload = ?pl and x = ?abort
        and msg = "lit ''This operation was aborted''" and is_TypeError = False]
      request_reclassifies [where this = example_client
        and P = "example_platform (Rejected ?te) :: ApiAnalyzeResponse platform"
        and endpoint = ?ep and payload = ?pl and x = ?te and name = "lit ''TypeError''"
        and msg = "lit ''fetch failed''" and is_TypeError = True]
      e n s50 t m
    by (simp add: example_platform_def error_response_def ok_def new_TimeoutError_def)
qed

text \<open>
  What the branch of a response that is not ok and not 429 throws: the \<open>ApiError\<close>
  built from the first truthy field of the parsed body, and from the generic message
  when there is no parsed body or no truthy field.
\<close>

lemma js_or_chain:
  "js_or (js_or (js_or a b) c) (JStr g) =
     (case find ToBoolean [a, b, c] of None \<Rightarrow> JStr g | Some v \<Rightarrow> v)"
  by (simp add: js_or_def)

lemma thrown_of_response_ApiError:
  "status r \<noteq> 429 \<Longrightarrow>
   thrown_of_response P r =
     throw_new_ApiError (Number_toString P)
       (case parsed_body P r of
          None \<Rightarrow> JStr (generic_message (status r))
        | Some d \<Rightarrow>
            (case first_truthy_field d of
               None \<Rightarrow> JStr (generic_message (status r))
             | Some v \<Rightarrow> v))
       (status r) (response_text r)"
proof (cases "JSON_parse P (response_text r)")
  case None
  assume "status r \<noteq> 429"
  with None show ?thesis
    by (simp add: thrown_of_response_def parsed_body_def response_text_def generic_message_def
        Let_def)
next
  case (Some d)
  assume "status r \<noteq> 429"
  with Some show ?thesis
    by (cases "throws_on_read d")
       (simp_all add: thrown_of_response_def parsed_body_def response_text_def
          first_truthy_field_def generic_message_def js_or_chain Let_def)
qed

lemma throw_new_ApiError_string:
  "throw_new_ApiError N (JStr s) n t = Own (ApiError s n t)"
  by (simp add: throw_new_ApiError_def)

text \<open>
  C5, as amended. A response with a status that is not ok and not 429 makes the request
  fail as follows. When the text of the body does not parse as JSON or parses to
  \<open>null\<close>, and when none of the fields \<open>detail\<close>, \<open>message\<close>, \<open>error\<close> of the parsed body
  has a truthy value, the request fails with an \<open>ApiError\<close> that carries the status,
  the text of the body and the generic message with the status. When the first of
  the three fields with a truthy value holds a string, the request fails with an
  \<open>ApiError\<close> that carries the status, the text of the body and that string as message.
\<close>

theorem request_ApiError:
  "fetch P (fetch_args (baseUrl this @ endpoint) payload) = Resolved r \<and>
   \<not> (200 \<le> status r \<and> status r \<le> 299) \<and> status r \<noteq> 429 \<and>
   t = (case text_result r of None \<Rightarrow> [] | Some u \<Rightarrow> u) \<longrightarrow>
     (parsed_body P r = None \<longrightarrow>
        request this P endpoint payload =
          Inl (ApiError (lit ''API request failed with status '' @ show_nat (status r))
                 (status r) t))
   \<and> (\<forall>d. parsed_body P r = Some d \<and> first_truthy_field d = None \<longrightarrow>
        request this P endpoint payload =
          Inl (ApiError (lit ''API request failed with status '' @ show_nat (status r))
                 (status r) t))
   \<and> (\<forall>d s. parsed_body P r = Some d \<and> first_truthy_field d = Some (JStr s) \<longrightarrow>
        request this P endpoint payload = Inl (ApiError s (status r) t))"
proof
  assume h: "fetch P (fetch_args (baseUrl this @ endpoint) payload) = Resolved r \<and>
   \<not> (200 \<le> status r \<and> status r \<le> 299) \<and> status r \<noteq> 429 \<and>
   t = (case text_result r of None \<Rightarrow> [] | Some u \<Rightarrow> u)"
  then have t: "t = response_text r" by (simp add: response_text_def)
  from h have "\<not> ok r" by (simp add: ok_def)
  with h have "request this P endpoint payload = Inl (catch_block this (thrown_of_response P r))"
    by (simp add: request_not_ok)
  with h t show "(parsed_body P r = None \<longrightarrow>
        request this P endpoint payload =
          Inl (ApiError (lit ''API request failed with status '' @ show_nat (status r))
                 (status r) t))
   \<and> (\<forall>d. parsed_body P r = Some d \<and> first_truthy_field d = None \<longrightarrow>
        request this P endpoint payload =
          Inl (ApiError (lit ''API request failed with status '' @ show_nat (status r))
                 (status r) t))
   \<and> (\<forall>d s. parsed_body P r = Some d \<and> first_truthy_field d = Some (JStr s) \<longrightarrow>
        request this P endpoint payload = Inl (ApiError s (status r) t))"
    by (simp add: thrown_of_response_ApiError throw_new_ApiError_string generic_message_def)
qed

theorem request_ApiError_witness:
  \<open>request example_client
     (parsing_platform (Resolved (error_response 500 None (lit ''{"detail":"boom"}'')))
        (lit ''{"detail":"boom"}'') (JObj [(lit ''detail'', JStr (lit ''boom''))]))
     (lit ''/api/v1/analyze'') (JObj [(lit ''text'', JStr (lit ''hello''))]) =
   (Inl (ApiError (lit ''boom'') 500 (lit ''{"detail":"boom"}''))
      :: EmotionAnalyzerError + ApiAnalyzeResponse)
   \<and> request example_client
     (example_platform (Resolved (error_response 500 None (lit ''Internal Server Error''))))
     (lit ''/api/v1/analyze'') (JObj [(lit ''text'', JStr (lit ''hello''))]) =
   (Inl (ApiError (lit ''API request failed with status 500'') 500 (lit ''Internal Server Error''))
      :: EmotionAnalyzerError + ApiAnalyzeResponse)
   \<and> request example_client
     (parsing_platform (Resolved (error_response 500 None (lit ''{"code":7}'')))
        (lit ''{"code":7}'') (JObj [(lit ''code'', JNum (Num 7))]))
     (lit ''/api/v1/analyze'') (JObj [(lit ''text'', JStr (lit ''hello''))]) =
   (Inl (ApiError (lit ''API request failed with status 500'') 500 (lit ''{"code":7}''))
      :: EmotionAnalyzerError + ApiAnalyzeResponse)\<close>
proof -
  let ?ep = "lit ''/api/v1/analyze''"
  let ?pl = "JObj [(lit ''text'', JStr (lit ''hello''))]"
  let ?r1 = \<open>error_response 500 None (lit ''{"detail":"boom"}'') :: ApiAnalyzeResponse http_response\<close>
  let ?d1 = "JObj [(lit ''detail'', JStr (lit ''boom''))]"
  let ?P1 = \<open>parsing_platform (Resolved ?r1) (lit ''{"detail":"boom"}'') ?d1\<close>
  let ?r2 = "error_response 500 None (lit ''Internal Server Error'') :: ApiAnalyzeResponse http_response"
  let ?P2 = "example_platform (Resolved ?r2)"
  let ?r3 = \<open>error_response 500 None (lit ''{"code":7}'') :: ApiAnalyzeResponse http_response\<close>
  let ?d3 = "JObj [(lit ''code'', JNum (Num 7))]"
  let ?P3 = \<open>parsing_platform (Resolved ?r3) (lit ''{"code":7}'') ?d3\<close>
  have s500: "show_nat 500 = lit ''500''" by code_simp
  have g: "lit ''API request failed with status '' @ lit ''500'' =
           lit ''API request failed with status 500''"
    by (simp add: lit_def)
  have a1: "fetch ?P1 (fetch_args (baseUrl example_client @ ?ep) ?pl) = Resolved ?r1 \<and>
            \<not> (200 \<le> status ?r1 \<and> status ?r1 \<le> 299) \<and> status ?r1 \<noteq> 429 \<and>
            response_text ?r1 = (case text_result ?r1 of None \<Rightarrow> [] | Some u \<Rightarrow> u)"
    by (simp add: parsing_platform_def error_response_def response_text_def)
  have b1: "parsed_body ?P1 ?r1 = Some ?d1 \<and> first_truthy_field ?d1 = Some (JStr (lit ''boom''))"
    by (simp add: parsed_body_def parsing_platform_def error_response_def response_text_def
        first_truthy_field_def lit_def)
  have a2: "fetch ?P2 (fetch_args (baseUrl example_client @ ?ep) ?pl) = Resolved ?r2 \<and>
            \<not> (200 \<le> status ?r2 \<and> status ?r2 \<le> 299) \<and> status ?r2 \<noteq> 429 \<and>
            response_text ?r2 = (case text_result ?r2 of None \<Rightarrow> [] | Some u \<Rightarrow> u)"
    by (simp add: example_platform_def error_response_def response_text_def)
  have b2: "parsed_body ?P2 ?r2 = None"
    by (simp add: parsed_body_def example_platform_def)
  have a3: "fetch ?P3 (fetch_args (baseUrl example_client @ ?ep) ?pl) = Resolved ?r3 \<and>
            \<not> (200 \<le> status ?r3 \<and> status ?r3 \<le> 299) \<and> status ?r3 \<noteq> 429 \<and>
            response_text ?r3 = (case text_result ?r3 of None \<Rightarrow> [] | Some u \<Rightarrow> u)"
    by (simp add: parsing_platform_def error_response_def response_text_def)
  have b3: "parsed_body ?P3 ?r3 = Some ?d3 \<and> first_truthy_field ?d3 = None"
    by (simp add: parsed_body_def parsing_platform_def error_response_def response_text_def
        first_truthy_field_def lit_def)
  have st: "status ?r1 = 500" "status ?r2 = 500" "status ?r3 = 500"
    by (simp_all add: error_response_def)
  have tx: \<open>response_text ?r1 = lit ''{"detail":"boom"}''\<close>
    "response_text ?r2 = lit ''Internal Server Error''"
    \<open>response_text ?r3 = lit ''{"code":7}''\<close>
    by (simp_all add: error_response_def response_text_def)
  from request_ApiError [where this = example_client and P = ?P1 and endpoint = ?ep
      and payload = ?pl and r = ?r1 and t = "response_text ?r1"] a1 b1
  have c1: "request example_client ?P1 ?ep ?pl =
            Inl (ApiError (lit ''boom'') (status ?r1) (response_text ?r1))"
    by blast
  from request_ApiError [where this = example_client and P = ?P2 and endpoint = ?ep
      and payload = ?pl and r = ?r2 and t = "response_text ?r2"] a2 b2
  have c2: "request example_client ?P2 ?ep ?pl =
            Inl (ApiError (lit ''API request failed with status '' @ show_nat (status ?r2))
                   (status ?r2) (response_text ?r2))"
    by blast
  from request_ApiError [where this = example_client and P = ?P3 and endpoint = ?ep
      and payload = ?pl and r = ?r3 and t = "response_text ?r3"] a3 b3
  have c3: "request example_client ?P3 ?ep ?pl =
            Inl (ApiError (lit ''API request failed with status '' @ show_nat (status ?r3))
                   (status ?r3) (response_text ?r3))"
    by blast
  show ?thesis
    using c1 c2 c3 by (simp only: st tx s500 g)
qed

text \<open>
  C5 as stated fails on the body \<open>{"detail":"","message":"boom"}\<close>: \<open>detail\<close> is present
  and first in the order, but the message is taken from \<open>message\<close>.
\<close>

theorem ApiError_message_counterexample:
  \<open>request example_client
     (parsing_platform
        (Resolved (error_response 500 None (lit ''{"detail":"","message":"boom"}'')))
        (lit ''{"detail":"","message":"boom"}'')
        (JObj [(lit ''detail'', JStr []), (lit ''message'', JStr (lit ''boom''))]))
     (lit ''/api/v1/analyze'') (JObj [(lit ''text'', JStr (lit ''hello''))]) =
   (Inl (ApiError (lit ''boom'') 500 (lit ''{"detail":"","message":"boom"}''))
      :: EmotionAnalyzerError + ApiAnalyzeResponse)
   \<and> spec_error_message 500
        (Some (JObj [(lit ''detail'', JStr []), (lit ''message'', JStr (lit ''boom''))])) = JStr []
   \<and> lit ''boom'' \<noteq> []\<close>
  by (simp add: request_def fetch_args_def parsing_platform_def error_response_def ok_def
      thrown_of_response_def throw_new_ApiError_def response_text_def js_or_def
      spec_error_message_def lit_def Let_def)

text \<open>
  When the first truthy field does not hold a string, the message is its conversion
  to a string. The validation errors of the server have an array of objects as
  \<open>detail\<close>: the message is then \<open>[object Object]\<close>.
\<close>

lemma request_ApiError_any_value:
  "fetch P (fetch_args (baseUrl this @ endpoint) payload) = Resolved r \<Longrightarrow> \<not> ok r \<Longrightarrow>
   status r \<noteq> 429 \<Longrightarrow> parsed_body P r = Some d \<Longrightarrow> first_truthy_field d = Some v \<Longrightarrow>
   request this P endpoint payload =
     Inl (catch_block this (throw_new_ApiError (Number_toString P) v (status r) (response_text r)))"
  by (simp add: request_not_ok thrown_of_response_ApiError)

lemma request_ApiError_array_detail:
  \<open>request example_client
     (parsing_platform
        (Resolved (error_response 422 None (lit ''{"detail":[{"msg":"field required"}]}'')))
        (lit ''{"detail":[{"msg":"field required"}]}'')
        (JObj [(lit ''detail'', JArr [Some (JObj [(lit ''msg'', JStr (lit ''field required''))])])]))
     (lit ''/api/v1/analyze'') (JObj [(lit ''text'', JStr (lit ''hello''))]) =
   (Inl (ApiError (lit ''[object Object]'') 422 (lit ''{"detail":[{"msg":"field required"}]}''))
      :: EmotionAnalyzerError + ApiAnalyzeResponse)\<close>
  by (simp add: request_def fetch_args_def parsing_platform_def error_response_def ok_def
      thrown_of_response_def throw_new_ApiError_def response_text_def js_or_def lit_def Let_def)

text \<open>
  C2. A response with status 429 fails with \<open>RateLimitError\<close>, and \<open>retryAfter\<close> is absent
  when the header \<open>Retry-After\<close> does not parse as an integer. The code gives \<open>NaN\<close> there:
  with the header \<open>Wed, 21 Oct 2015 07:28:00 GMT\<close> the field is present and holds \<open>NaN\<close>.
\<close>

theorem retryAfter_http_date:
  "analyze example_client
     (example_platform
        (Resolved (error_response 429 (Some (lit ''Wed, 21 Oct 2015 07:28:00 GMT'')) [])))
     (JStr (lit ''hello'')) =
   Inl (RateLimitError (lit ''Rate limit exceeded. Please wait before making more requests.'')
          (Some NaN))"
  by (simp add: analyze_def validateText_JStr request_def example_platform_def error_response_def
      ok_def thrown_of_response_def parseInt10_def is_ws_def is_digit_def lit_def Let_def
      trim_def countWords_def split_ws_def MAX_WORDS_PER_TEXT_def)

lemma retryAfter_cases:
  "status r = 429 \<Longrightarrow>
   thrown_of_response P r =
     Own (RateLimitError (lit ''Rate limit exceeded. Please wait before making more requests.'')
       (case retry_after_header r of
          None \<Rightarrow> None
        | Some h \<Rightarrow> if h = [] then None else Some (parseInt10 h)))"
  by (auto simp: thrown_of_response_def Let_def split: option.splits)

text \<open>With the header \<open>Retry-After: 5\<close> the field holds 5.\<close>

lemma retryAfter_seconds:
  "analyze example_client
     (example_platform (Resolved (error_response 429 (Some (lit ''5'')) [])))
     (JStr (lit ''hello'')) =
   Inl (RateLimitError (lit ''Rate limit exceeded. Please wait before making more requests.'')
          (Some (Num 5)))"
  by (simp add: analyze_def validateText_JStr request_def example_platform_def error_response_def
      ok_def thrown_of_response_def parseInt10_def is_ws_def is_digit_def digits_value_def lit_def
      Let_def trim_def countWords_def split_ws_def MAX_WORDS_PER_TEXT_def)

section \<open>The public operations and the constructor\<close>

lemma thrown_of_response_cong:
  "JSON_parse P' = JSON_parse P \<Longrightarrow> Number_toString P' = Number_toString P \<Longrightarrow>
   thrown_of_response P' r = thrown_of_response P r"
  by (simp add: thrown_of_response_def Let_def)

lemma request_cong:
  assumes f: "fetch P' (fetch_args (baseUrl this @ endpoint) payload) =
     fetch P (fetch_args (baseUrl this @ endpoint) payload)"
    and j: "JSON_parse P' = JSON_parse P"
    and n: "Number_toString P' = Number_toString P"
  shows "request this P' endpoint payload = request this P endpoint payload"
proof -
  have e: "thrown_of_response P' r = thrown_of_response P r" for r
    using j n by (rule thrown_of_response_cong)
  show ?thesis by (simp only: request_def f e)
qed

text \<open>
  C7. A value that passes \<open>validateText\<close> is a string \<open>s\<close>. \<open>analyze\<close> then calls \<open>fetch\<close>
  with the POST request to the base URL followed by \<open>/api/v1/analyze\<close>, with the header
  \<open>Content-Type: application/json\<close> and the body \<open>{text: trim s}\<close>: its outcome depends
  on the platform only through the outcome of \<open>fetch\<close> on that request, and when that
  outcome is a response with a status from 200 to 299 and the body \<open>w\<close>, \<open>analyze\<close>
  returns the fields \<open>primary_emotion\<close>, \<open>confidence\<close>, \<open>all_emotions\<close> of \<open>w\<close> as
  \<open>primaryEmotion\<close>, \<open>confidence\<close>, \<open>allEmotions\<close>.
\<close>

theorem analyze_success:
  "validateText v = Inr () \<longrightarrow>
   (\<exists>s. v = JStr s \<and>
     (\<forall>q. q = \<lparr>url = baseUrl this @ lit ''/api/v1/analyze'',
               http_method = lit ''POST'',
               headers = [(lit ''Content-Type'', lit ''application/json'')],
               body = JObj [(lit ''text'', JStr (trim s))]\<rparr> \<longrightarrow>
        (\<forall>P'. fetch P' q = fetch P q \<and> JSON_parse P' = JSON_parse P \<and>
              Number_toString P' = Number_toString P \<longrightarrow>
           analyze this P' v = analyze this P v) \<and>
        (\<forall>r w. fetch P q = Resolved r \<and> 200 \<le> status r \<and> status r \<le> 299 \<and>
               json_result r = Inr w \<longrightarrow>
           analyze this P v =
             Inr \<lparr>primaryEmotion = primary_emotion w, confidence = api_confidence w,
                  allEmotions = all_emotions w\<rparr>)))"
proof
  assume pass: "validateText v = Inr ()"
  then obtain s where s: "v = JStr s" using validateText_passes_string by blast
  let ?q = "\<lparr>url = baseUrl this @ lit ''/api/v1/analyze'',
               http_method = lit ''POST'',
               headers = [(lit ''Content-Type'', lit ''application/json'')],
               body = JObj [(lit ''text'', JStr (trim s))]\<rparr>"
  have q: "fetch_args (baseUrl this @ lit ''/api/v1/analyze'')
             (JObj [(lit ''text'', JStr (trim s))]) = ?q"
    by (simp add: fetch_args_def)
  have one: "analyze this P' v = analyze this P v"
    if "fetch P' ?q = fetch P ?q \<and> JSON_parse P' = JSON_parse P \<and>
        Number_toString P' = Number_toString P" for P'
  proof -
    have "request this P' (lit ''/api/v1/analyze'') (JObj [(lit ''text'', JStr (trim s))]) =
          request this P (lit ''/api/v1/analyze'') (JObj [(lit ''text'', JStr (trim s))])"
      using that by (intro request_cong) (simp_all add: q)
    with pass s show ?thesis by (simp add: analyze_def)
  qed
  have two: "analyze this P v =
          Inr \<lparr>primaryEmotion = primary_emotion w, confidence = api_confidence w,
               allEmotions = all_emotions w\<rparr>"
    if "fetch P ?q = Resolved r \<and> 200 \<le> status r \<and> status r \<le> 299 \<and> json_result r = Inr w"
    for r w
  proof -
    from that have "request this P (lit ''/api/v1/analyze'')
        (JObj [(lit ''text'', JStr (trim s))]) = Inr w"
      by (intro request_ok [of _ _ _ _ r]) (simp_all add: q ok_def)
    with pass s show ?thesis by (simp add: analyze_def transformResponse_def)
  qed
  from s one two show "\<exists>s. v = JStr s \<and>
     (\<forall>q. q = \<lparr>url = baseUrl this @ lit ''/api/v1/analyze'',
               http_method = lit ''POST'',
               headers = [(lit ''Content-Type'', lit ''application/json'')],
               body = JObj [(lit ''text'', JStr (trim s))]\<rparr> \<longrightarrow>
        (\<forall>P'. fetch P' q = fetch P q \<and> JSON_parse P' = JSON_parse P \<and>
              Number_toString P' = Number_toString P \<longrightarrow>
           analyze this P' v = analyze this P v) \<and>
        (\<forall>r w. fetch P q = Resolved r \<and> 200 \<le> status r \<and> status r \<le> 299 \<and>
               json_result r = Inr w \<longrightarrow>
           analyze this P v =
             Inr \<lparr>primaryEmotion = primary_emotion w, confidence = api_confidence w,
                  allEmotions = all_emotions w\<rparr>))"
    by blast
qed

theorem analyze_success_witness:
  "analyze example_client analyze_only_platform (JStr (lit ''  I am happy  '')) =
     Inr \<lparr>primaryEmotion = lit ''joy'', confidence = Num (9 / 10),
          allEmotions = [\<lparr>emotion = lit ''joy'', score = Num (9 / 10)\<rparr>]\<rparr>"
proof -
  let ?v = "JStr (lit ''  I am happy  '')"
  let ?q = "\<lparr>url = baseUrl example_client @ lit ''/api/v1/analyze'',
               http_method = lit ''POST'',
               headers = [(lit ''Content-Type'', lit ''application/json'')],
               body = JObj [(lit ''text'', JStr (trim (lit ''  I am happy  '')))]\<rparr>"
  have pass: "validateText ?v = Inr ()" by code_simp
  have tr: "trim (lit ''  I am happy  '') = lit ''I am happy''" by code_simp
  have url: "baseUrl example_client @ lit ''/api/v1/analyze'' =
             lit ''http://localhost:8000/api/v1/analyze''"
    by (simp add: example_client_def lit_def)
  have f: "fetch analyze_only_platform ?q = Resolved (ok_response joy)"
    unfolding tr url by (simp add: analyze_only_platform_def)
  have okr: "200 \<le> status (ok_response joy) \<and> status (ok_response joy) \<le> 299 \<and>
             json_result (ok_response joy) = Inr joy"
    by (simp add: ok_response_def)
  have "\<exists>s. ?v = JStr s \<and>
     (\<forall>q. q = \<lparr>url = baseUrl example_client @ lit ''/api/v1/analyze'',
               http_method = lit ''POST'',
               headers = [(lit ''Content-Type'', lit ''application/json'')],
               body = JObj [(lit ''text'', JStr (trim s))]\<rparr> \<longrightarrow>
        (\<forall>P'. fetch P' q = fetch analyze_only_platform q \<and>
              JSON_parse P' = JSON_parse analyze_only_platform \<and>
              Number_toString P' = Number_toString analyze_only_platform \<longrightarrow>
           analyze example_client P' ?v = analyze example_client analyze_only_platform ?v) \<and>
        (\<forall>r w. fetch analyze_only_platform q = Resolved r \<and> 200 \<le> status r \<and>
               status r \<le> 299 \<and> json_result r = Inr w \<longrightarrow>
           analyze example_client analyze_only_platform ?v =
             Inr \<lparr>primaryEmotion = primary_emotion w, confidence = api_confidence w,
                  allEmotions = all_emotions w\<rparr>))"
    using pass
    by (rule analyze_success [where v = ?v and this = example_client
          and P = analyze_only_platform, THEN mp])
  then obtain s where s: "?v = JStr s" and
    everyq: "\<forall>q. q = \<lparr>url = baseUrl example_client @ lit ''/api/v1/analyze'',
               http_method = lit ''POST'',
               headers = [(lit ''Content-Type'', lit ''application/json'')],
               body = JObj [(lit ''text'', JStr (trim s))]\<rparr> \<longrightarrow>
        (\<forall>P'. fetch P' q = fetch analyze_only_platform q \<and>
              JSON_parse P' = JSON_parse analyze_only_platform \<and>
              Number_toString P' = Number_toString analyze_only_platform \<longrightarrow>
           analyze example_client P' ?v = analyze example_client analyze_only_platform ?v) \<and>
        (\<forall>r w. fetch analyze_only_platform q = Resolved r \<and> 200 \<le> status r \<and>
               status r \<le> 299 \<and> json_result r = Inr w \<longrightarrow>
           analyze example_client analyze_only_platform ?v =
             Inr \<lparr>primaryEmotion = primary_emotion w, confidence = api_confidence w,
                  allEmotions = all_emotions w\<rparr>)"
    by (elim exE conjE)
  note res = everyq [THEN spec, THEN mp, OF refl, THEN conjunct2, THEN spec, THEN spec, THEN mp]
  from s have eq: "s = lit ''  I am happy  ''" by simp
  have "analyze example_client analyze_only_platform ?v =
          Inr \<lparr>primaryEmotion = primary_emotion joy, confidence = api_confidence joy,
               allEmotions = all_emotions joy\<rparr>"
  proof (rule res)
    show "fetch analyze_only_platform
            \<lparr>url = baseUrl example_client @ lit ''/api/v1/analyze'',
               http_method = lit ''POST'',
               headers = [(lit ''Content-Type'', lit ''application/json'')],
               body = JObj [(lit ''text'', JStr (trim s))]\<rparr> = Resolved (ok_response joy) \<and>
          200 \<le> status (ok_response joy) \<and> status (ok_response joy) \<le> 299 \<and>
          json_result (ok_response joy) = Inr joy"
      unfolding eq using f okr by (rule conjI)
  qed
  then show ?thesis by (simp add: joy_def)
qed

lemma request_Inr:
  "request this P endpoint payload = Inr w \<Longrightarrow>
   \<exists>r. fetch P (fetch_args (baseUrl this @ endpoint) payload) = Resolved r \<and> ok r \<and>
       json_result r = Inr w"
  by (auto simp: request_def split: fetch_result.splits if_splits sum.splits)

text \<open>
  C1, as amended. When \<open>analyzeBatch\<close> succeeds, the batch request was answered by a
  response that is ok with a body \<open>{results, count}\<close>; the returned \<open>count\<close> is the \<open>count\<close>
  of that body, copied, and the returned \<open>results\<close> are its \<open>results\<close> transformed one by
  one, so of the same length. The returned \<open>count\<close> equals the number of returned results
  exactly when the body's \<open>count\<close> equals the number of its \<open>results\<close>.
\<close>

theorem analyzeBatch_count:
  "analyzeBatch this P v = Inr b \<longrightarrow>
   (\<exists>r w. fetch P (fetch_args (baseUrl this @ lit ''/api/v1/analyze/batch'') (batch_payload v))
             = Resolved r \<and>
          ok r \<and> json_result r = Inr w \<and>
          count b = api_count w \<and>
          results b = map transformResponse (api_results w) \<and>
          length (results b) = length (api_results w))"
proof
  assume h: "analyzeBatch this P v = Inr b"
  then obtain w where
    rq: "request this P (lit ''/api/v1/analyze/batch'') (batch_payload v) = Inr w" and
    b: "b = \<lparr>results = map transformResponse (api_results w), count = api_count w\<rparr>"
    by (auto simp: analyzeBatch_def split: sum.splits)
  from request_Inr [OF rq] obtain r where
    "fetch P (fetch_args (baseUrl this @ lit ''/api/v1/analyze/batch'') (batch_payload v))
       = Resolved r" "ok r" "json_result r = Inr w"
    by blast
  with b show "\<exists>r w. fetch P (fetch_args (baseUrl this @ lit ''/api/v1/analyze/batch'') (batch_payload v))
             = Resolved r \<and>
          ok r \<and> json_result r = Inr w \<and>
          count b = api_count w \<and>
          results b = map transformResponse (api_results w) \<and>
          length (results b) = length (api_results w)"
    by auto
qed

text \<open>
  C1 as stated fails when the server answers one text with \<open>{results: [r], count: 2}\<close>:
  the returned \<open>count\<close> is 2 and there is one result.
\<close>

theorem analyzeBatch_count_counterexample:
  "analyzeBatch example_client
     (example_platform (Resolved (ok_response \<lparr>api_results = [joy], api_count = 2\<rparr>)))
     (JArr [Some (JStr (lit ''I am happy''))]) =
   Inr \<lparr>results = [transformResponse joy], count = 2\<rparr>
   \<and> count \<lparr>results = [transformResponse joy], count = 2\<rparr> \<noteq>
     int (length (results \<lparr>results = [transformResponse joy], count = 2\<rparr>))"
proof -
  have "validateBatchTexts (JArr [Some (JStr (lit ''I am happy''))]) = Inr ()"
    by code_simp
  then show ?thesis
    by (simp add: analyzeBatch_def request_def example_platform_def ok_response_def ok_def)
qed

theorem analyzeBatch_count_witness:
  "analyzeBatch example_client
     (example_platform (Resolved (ok_response \<lparr>api_results = [joy], api_count = 1\<rparr>)))
     (JArr [Some (JStr (lit ''I am happy''))]) =
   Inr \<lparr>results = [transformResponse joy], count = 1\<rparr>
   \<and> (\<exists>r w. fetch (example_platform (Resolved (ok_response \<lparr>api_results = [joy], api_count = 1\<rparr>)))
               (fetch_args (baseUrl example_client @ lit ''/api/v1/analyze/batch'')
                  (batch_payload (JArr [Some (JStr (lit ''I am happy''))]))) = Resolved r \<and>
          ok r \<and> json_result r = Inr w \<and>
          count \<lparr>results = [transformResponse joy], count = 1\<rparr> = api_count w \<and>
          results \<lparr>results = [transformResponse joy], count = 1\<rparr> =
            map transformResponse (api_results w) \<and>
          length (results \<lparr>results = [transformResponse joy], count = 1\<rparr>) =
            length (api_results w))"
proof -
  have v: "validateBatchTexts (JArr [Some (JStr (lit ''I am happy''))]) = Inr ()"
    by code_simp
  have a: "analyzeBatch example_client
     (example_platform (Resolved (ok_response \<lparr>api_results = [joy], api_count = 1\<rparr>)))
     (JArr [Some (JStr (lit ''I am happy''))]) =
   Inr \<lparr>results = [transformResponse joy], count = 1\<rparr>"
    using v by (simp add: analyzeBatch_def request_def example_platform_def ok_response_def ok_def)
  show ?thesis
    using a analyzeBatch_count [where this = example_client
        and P = "example_platform (Resolved (ok_response \<lparr>api_results = [joy], api_count = 1\<rparr>))"
        and v = "JArr [Some (JStr (lit ''I am happy''))]"
        and b = "\<lparr>results = [transformResponse joy], count = 1\<rparr>"]
    by simp
qed

text \<open>
  The request of a batch with holes: validation passes and the payload keeps the
  holes, which \<open>JSON.stringify\<close> writes as \<open>null\<close>.
\<close>

lemma batch_payload_sparse:
  "batch_payload (JArr [Some (JStr (lit '' ok '')), None]) =
     JObj [(lit ''texts'', JArr [Some (JStr (lit ''ok'')), None])]"
  by code_simp

lemma DEFAULT_BASE_URL_no_slash: "replace_trailing_slash DEFAULT_BASE_URL = DEFAULT_BASE_URL"
  by (simp add: replace_trailing_slash_def DEFAULT_BASE_URL_def lit_def)

text \<open>
  C10. The constructor replaces an absent and an empty \<open>baseUrl\<close> by the default base
  URL. It replaces only an absent \<open>timeout\<close> by the default 30000: every given \<open>timeout\<close> is
  kept as it is, 0 and the negative ones included, and the constructor rejects none.
\<close>

theorem constructor_defaults:
  "(opt_baseUrl options = None \<or> opt_baseUrl options = Some [] \<longrightarrow>
      baseUrl (new_EmotionAnalyzer options) = DEFAULT_BASE_URL)
   \<and> (opt_timeout options = None \<longrightarrow> timeout (new_EmotionAnalyzer options) = 30000)
   \<and> (opt_timeout options = Some t \<longrightarrow> timeout (new_EmotionAnalyzer options) = t)"
  by (auto simp: new_EmotionAnalyzer_def or_default_def nullish_default_def
      DEFAULT_BASE_URL_no_slash DEFAULT_TIMEOUT_def)

theorem constructor_defaults_witness:
  "baseUrl (new_EmotionAnalyzer \<lparr>opt_baseUrl = Some [], opt_timeout = Some 0\<rparr>) = DEFAULT_BASE_URL
   \<and> timeout (new_EmotionAnalyzer \<lparr>opt_baseUrl = Some [], opt_timeout = Some 0\<rparr>) = 0
   \<and> timeout (new_EmotionAnalyzer \<lparr>opt_baseUrl = None, opt_timeout = Some (- 5)\<rparr>) = - 5
   \<and> baseUrl (new_EmotionAnalyzer \<lparr>opt_baseUrl = None, opt_timeout = None\<rparr>) = DEFAULT_BASE_URL
   \<and> timeout (new_EmotionAnalyzer \<lparr>opt_baseUrl = None, opt_timeout = None\<rparr>) = 30000"
  using constructor_defaults [of "\<lparr>opt_baseUrl = Some [], opt_timeout = Some 0\<rparr>" 0]
    constructor_defaults [of "\<lparr>opt_baseUrl = None, opt_timeout = Some (- 5)\<rparr>" "- 5"]
    constructor_defaults [of "\<lparr>opt_baseUrl = None, opt_timeout = None\<rparr>" 0]
  by simp

lemma client_after_unchanged: "client_after this calls = this"
proof (induction calls arbitrary: this)
  case Nil
  show ?case by simp
next
  case (Cons c calls)
  then show ?case by (cases c) simp_all
qed

text \<open>
  C8, as amended. The stored base URL is the given \<open>baseUrl\<close>, or the default base URL
  when the given one is empty, without its last character when that is a slash. The
  stored base URL ends with a slash exactly when the given one ends with two. The
  stored timeout is the given one, or 30000 when none is given. After every sequence
  of calls of \<open>analyze\<close> and \<open>analyzeBatch\<close>, whatever they return, \<open>baseUrl\<close> and
  \<open>timeout\<close> of the client are those that the constructor stored.
\<close>

theorem constructor_baseUrl:
  "(opt_baseUrl options = Some s \<longrightarrow>
     baseUrl (new_EmotionAnalyzer options) =
       (if s = [] then DEFAULT_BASE_URL else if ends_with_slash s then butlast s else s)
     \<and> ends_with_slash (baseUrl (new_EmotionAnalyzer options)) =
         (ends_with_slash s \<and> ends_with_slash (butlast s)))
   \<and> timeout (new_EmotionAnalyzer options) =
       (case opt_timeout options of None \<Rightarrow> 30000 | Some t \<Rightarrow> t)
   \<and> baseUrl (client_after (new_EmotionAnalyzer options) calls) =
       baseUrl (new_EmotionAnalyzer options)
   \<and> timeout (client_after (new_EmotionAnalyzer options) calls) =
       timeout (new_EmotionAnalyzer options)"
proof (intro conjI impI)
  assume given: "opt_baseUrl options = Some s"
  show "baseUrl (new_EmotionAnalyzer options) =
       (if s = [] then DEFAULT_BASE_URL else if ends_with_slash s then butlast s else s)"
  proof (cases "s = []")
    case True
    with given show ?thesis
      by (simp add: new_EmotionAnalyzer_def or_default_def DEFAULT_BASE_URL_no_slash)
  next
    case False
    with given show ?thesis
      by (simp add: new_EmotionAnalyzer_def or_default_def replace_trailing_slash_def
          ends_with_slash_def)
  qed
  show "ends_with_slash (baseUrl (new_EmotionAnalyzer options)) =
         (ends_with_slash s \<and> ends_with_slash (butlast s))"
  proof (cases "s = []")
    case True
    have "\<not> ends_with_slash DEFAULT_BASE_URL"
      by (simp add: ends_with_slash_def DEFAULT_BASE_URL_def lit_def)
    with True given show ?thesis
      by (simp add: new_EmotionAnalyzer_def or_default_def DEFAULT_BASE_URL_no_slash
          ends_with_slash_def)
  next
    case False
    with given show ?thesis
      by (auto simp: new_EmotionAnalyzer_def or_default_def replace_trailing_slash_def
          ends_with_slash_def)
  qed
next
  show "timeout (new_EmotionAnalyzer options) =
       (case opt_timeout options of None \<Rightarrow> 30000 | Some t \<Rightarrow> t)"
    by (simp add: new_EmotionAnalyzer_def nullish_default_def DEFAULT_TIMEOUT_def)
next
  show "baseUrl (client_after (new_EmotionAnalyzer options) calls) =
       baseUrl (new_EmotionAnalyzer options)"
    by (simp add: client_after_unchanged)
next
  show "timeout (client_after (new_EmotionAnalyzer options) calls) =
       timeout (new_EmotionAnalyzer options)"
    by (simp add: client_after_unchanged)
qed

theorem constructor_baseUrl_witness:
  "baseUrl (client_after
       (new_EmotionAnalyzer \<lparr>opt_baseUrl = Some (lit ''http://localhost:8000/''),
          opt_timeout = Some 50\<rparr>)
       [CallAnalyze analyze_only_platform (JStr (lit ''  I am happy  '')),
        CallAnalyzeBatch (example_platform (Rejected (NonError JUndefined))) JNull]) =
     lit ''http://localhost:8000''
   \<and> timeout (client_after
       (new_EmotionAnalyzer \<lparr>opt_baseUrl = Some (lit ''http://localhost:8000/''),
          opt_timeout = Some 50\<rparr>)
       [CallAnalyze analyze_only_platform (JStr (lit ''  I am happy  '')),
        CallAnalyzeBatch (example_platform (Rejected (NonError JUndefined))) JNull]) = 50
   \<and> \<not> ends_with_slash (baseUrl (new_EmotionAnalyzer
       \<lparr>opt_baseUrl = Some (lit ''http://localhost:8000/''), opt_timeout = Some 50\<rparr>))"
  using constructor_baseUrl [of "\<lparr>opt_baseUrl = Some (lit ''http://localhost:8000/''),
       opt_timeout = Some 50\<rparr>" "lit ''http://localhost:8000/''"
       "[CallAnalyze analyze_only_platform (JStr (lit ''  I am happy  '')),
        CallAnalyzeBatch (example_platform (Rejected (NonError JUndefined))) JNull]"]
  by (simp add: ends_with_slash_def lit_def)

text \<open>
  C8 as stated fails on \<open>http://localhost:8000//\<close>: one slash is removed and the stored
  base URL ends with the other. It also fails on the empty string, which has no slash
  to remove: the stored base URL is the default one.
\<close>

theorem constructor_baseUrl_counterexample:
  "baseUrl (new_EmotionAnalyzer \<lparr>opt_baseUrl = Some (lit ''http://localhost:8000//''),
       opt_timeout = None\<rparr>) = lit ''http://localhost:8000/''
   \<and> ends_with_slash (lit ''http://localhost:8000/'')
   \<and> baseUrl (new_EmotionAnalyzer \<lparr>opt_baseUrl = Some [], opt_timeout = None\<rparr>) =
       lit ''https://itsKrish01-emotion-checker.hf.space''
   \<and> replace_trailing_slash [] = []"
  by (simp add: new_EmotionAnalyzer_def or_default_def replace_trailing_slash_def
      ends_with_slash_def DEFAULT_BASE_URL_def lit_def)

end
